theory Spec2Isabelle
  imports Main "HOL-Library.AList"
begin

section \<open>Python values and errors\<close>

text \<open>
  The plug-in \<^verbatim>\<open>submit_publish_job.py\<close> works on dynamically typed dictionaries
  (\<^verbatim>\<open>instance.data\<close>, \<^verbatim>\<open>instance.context.data\<close>, the render job returned by the farm).
  Their values are modelled by \<open>pyval\<close>. A dictionary is an association list with string
  keys: the first binding of a key is the one that counts, an update replaces it in place
  or appends, as Python's insertion-ordered \<^verbatim>\<open>dict\<close> does. \<open>PObj\<close> is an opaque
  object (the anatomy, an authentication handle, ...): it is truthy, and it is neither
  subscriptable nor iterable. Floating-point numbers are not modelled.
\<close>

datatype pyval = PNone | PBool bool | PInt int | PStr string
  | PList "pyval list" | PDict "(string \<times> pyval) list" | PObj nat

type_synonym dict = "(string \<times> pyval) list"

datatype error =
    AssertionError string
  | KeyError string
  | TypeError
  | IndexError
  | AttributeError string
  | Exception string
  | OSError string
  | External string

text \<open>Decimal digits of a natural number, as \<^verbatim>\<open>str(n)\<close> and \<^verbatim>\<open>"%d" % n\<close> print them.\<close>

fun digits :: "nat \<Rightarrow> string" where
  "digits n = (if n < 10 then [char_of (48 + n)]
               else digits (n div 10) @ [char_of (48 + n mod 10)])"

declare digits.simps [simp del]

definition str_int :: "int \<Rightarrow> string" where
  "str_int i = (if i < 0 then ''-'' @ digits (nat (- i)) else digits (nat i))"

section \<open>Resource Collector: \<^verbatim>\<open>get_resource_files\<close>\<close>

text \<open>
  \<^verbatim>\<open>clique.assemble\<close> is a third-party function; it is a parameter of the model. What
  the code uses of a \<^verbatim>\<open>clique.Collection\<close> is modelled: its \<^verbatim>\<open>indexes\<close> (a sorted set,
  kept here as a list), membership and \<^verbatim>\<open>remove\<close> on it, and iteration, which yields
  \<^verbatim>\<open>head + '{0:0{1}d}'.format(index, padding) + tail\<close> for every index in order.
\<close>

record collection =
  head :: string
  tail :: string
  padding :: nat
  indexes :: "int list"

definition zfill :: "nat \<Rightarrow> string \<Rightarrow> string" where
  "zfill w s = replicate (w - length s) (CHR ''0'') @ s"

definition format_index :: "nat \<Rightarrow> int \<Rightarrow> string" where
  "format_index pad i =
     (if i < 0 then ''-'' @ zfill (pad - 1) (digits (nat (- i)))
      else zfill pad (digits (nat i)))"

definition collection_item :: "collection \<Rightarrow> int \<Rightarrow> string" where
  "collection_item c i = head c @ format_index (padding c) i @ tail c"

definition collection_items :: "collection \<Rightarrow> string list" where
  "collection_items c = map (collection_item c) (indexes c)"

text \<open>One round of the loop over \<^verbatim>\<open>frame_range\<close> (lines 45-48).\<close>

definition remove_frame :: "int \<Rightarrow> int list \<Rightarrow> int list" where
  "remove_frame frame idx = (if frame \<notin> set idx then idx else remove1 frame idx)"

definition get_resource_files ::
  "(string list \<Rightarrow> collection list \<times> string list) \<Rightarrow> string list \<Rightarrow> int list option
     \<Rightarrow> error + string list" where
  "get_resource_files assemble resources frame_range =
     (let res_collections = fst (assemble resources) in
      if length res_collections \<noteq> 1 then Inl (AssertionError ''Multiple collections found'')
      else
        (case res_collections of
           [] \<Rightarrow> Inl IndexError
         | res_collection # _ \<Rightarrow>
             (case frame_range of
                None \<Rightarrow> Inr (collection_items res_collection)
              | Some frames \<Rightarrow>
                  Inr (collection_items
                    (res_collection\<lparr>indexes := fold remove_frame frames (indexes res_collection)\<rparr>)))))"

section \<open>Operations on Python values\<close>

fun truthy :: "pyval \<Rightarrow> bool" where
  "truthy PNone = False"
| "truthy (PBool b) = b"
| "truthy (PInt i) = (i \<noteq> 0)"
| "truthy (PStr s) = (s \<noteq> [])"
| "truthy (PList l) = (l \<noteq> [])"
| "truthy (PDict d) = (d \<noteq> [])"
| "truthy (PObj n) = True"

text \<open>\<^verbatim>\<open>a or b\<close>\<close>

definition py_or :: "pyval \<Rightarrow> pyval \<Rightarrow> pyval" where
  "py_or a b = (if truthy a then a else b)"

text \<open>\<^verbatim>\<open>d.get(k)\<close>, \<^verbatim>\<open>d.get(k, default)\<close> and \<^verbatim>\<open>d[k]\<close> on a dictionary.\<close>

definition dict_get_default :: "dict \<Rightarrow> string \<Rightarrow> pyval \<Rightarrow> pyval" where
  "dict_get_default d k dflt = (case map_of d k of None \<Rightarrow> dflt | Some v \<Rightarrow> v)"

definition dict_get :: "dict \<Rightarrow> string \<Rightarrow> pyval" where
  "dict_get d k = dict_get_default d k PNone"

definition dict_getitem :: "dict \<Rightarrow> string \<Rightarrow> error + pyval" where
  "dict_getitem d k = (case map_of d k of None \<Rightarrow> Inl (KeyError k) | Some v \<Rightarrow> Inr v)"

text \<open>
  The same on a value that may or may not be a dictionary: subscripting anything else
  with a string key is a \<^verbatim>\<open>TypeError\<close>, calling \<^verbatim>\<open>.get\<close> on it an
  \<^verbatim>\<open>AttributeError\<close>.
\<close>

fun py_getitem :: "pyval \<Rightarrow> string \<Rightarrow> error + pyval" where
  "py_getitem (PDict d) k = dict_getitem d k"
| "py_getitem v k = Inl TypeError"

fun py_get :: "pyval \<Rightarrow> string \<Rightarrow> pyval \<Rightarrow> error + pyval" where
  "py_get (PDict d) k dflt = Inr (dict_get_default d k dflt)"
| "py_get v k dflt = Inl (AttributeError ''get'')"

text \<open>\<^verbatim>\<open>v[k] = x\<close>\<close>

fun py_setitem :: "pyval \<Rightarrow> string \<Rightarrow> pyval \<Rightarrow> error + pyval" where
  "py_setitem (PDict d) k x = Inr (PDict (AList.update k x d))"
| "py_setitem v k x = Inl TypeError"

text \<open>\<^verbatim>\<open>v[0]\<close>: the keys of a modelled dictionary are strings, so \<open>0\<close> is never one.\<close>

fun py_index0 :: "pyval \<Rightarrow> error + pyval" where
  "py_index0 (PList []) = Inl IndexError"
| "py_index0 (PList (x # xs)) = Inr x"
| "py_index0 (PStr []) = Inl IndexError"
| "py_index0 (PStr (c # cs)) = Inr (PStr [c])"
| "py_index0 (PDict d) = Inl (KeyError ''0'')"
| "py_index0 v = Inl TypeError"

text \<open>\<^verbatim>\<open>for x in v\<close>: the elements the loop visits.\<close>

fun py_iter :: "pyval \<Rightarrow> error + pyval list" where
  "py_iter (PList l) = Inr l"
| "py_iter (PStr s) = Inr (map (\<lambda>c. PStr [c]) s)"
| "py_iter (PDict d) = Inr (map (\<lambda>kv. PStr (fst kv)) d)"
| "py_iter v = Inl TypeError"

text \<open>\<^verbatim>\<open>isinstance(v, dict)\<close>\<close>

fun is_dict :: "pyval \<Rightarrow> bool" where
  "is_dict (PDict d) = True"
| "is_dict v = False"

text \<open>\<^verbatim>\<open>isinstance(v, str)\<close>\<close>

fun is_str :: "pyval \<Rightarrow> bool" where
  "is_str (PStr s) = True"
| "is_str v = False"

text \<open>\<^verbatim>\<open>xs += ys\<close> with a list \<open>ys\<close>: only a list can be extended.\<close>

fun py_iadd :: "pyval \<Rightarrow> pyval list \<Rightarrow> error + pyval" where
  "py_iadd (PList xs) ys = Inr (PList (xs @ ys))"
| "py_iadd v ys = Inl TypeError"

text \<open>\<^verbatim>\<open>v != 1\<close>: in Python \<^verbatim>\<open>True == 1\<close>.\<close>

definition py_ne_one :: "pyval \<Rightarrow> bool" where
  "py_ne_one v = (v \<noteq> PInt 1 \<and> v \<noteq> PBool True)"

text \<open>
  JSON serialisation (\<^verbatim>\<open>json.dump\<close>) fails with a \<^verbatim>\<open>TypeError\<close> on an object
  that is not made of dictionaries, lists, strings, numbers, booleans and \<^verbatim>\<open>None\<close>.
\<close>

fun serializable :: "pyval \<Rightarrow> bool" where
  "serializable (PObj n) = False"
| "serializable (PList l) = list_all serializable l"
| "serializable (PDict d) = list_all serializable (map snd d)"
| "serializable v = True"

section \<open>The world of the plug-in\<close>

text \<open>
  The collaborators of the plug-in (functions of \<^verbatim>\<open>ayon_core\<close>, \<^verbatim>\<open>ayon_api\<close>, the
  anatomy, the farm's web service, the operating system) are parameters of the model,
  gathered in the record \<open>ext\<close>. Each is a function of the arguments the plug-in passes
  that returns a value or raises; they are taken not to modify their arguments. The
  class attributes that studio settings may override are the record \<open>plugin\<close>.
\<close>

record payload =
  JobInfo :: dict
  PluginInfo :: dict
  AuxFiles :: "pyval list"

record response =
  resp_ok :: bool
  resp_text :: string
  resp_json :: "error + pyval"

record plugin =
  deadline_department :: pyval
  deadline_pool :: pyval
  deadline_pool_secondary :: pyval
  deadline_group :: pyval
  deadline_priority :: pyval
  environ_keys :: "string list"
  plugin_pype_version :: pyval

definition default_plugin :: plugin where
  "default_plugin = \<lparr>
     deadline_department = PStr '''',
     deadline_pool = PStr '''',
     deadline_pool_secondary = PStr '''',
     deadline_group = PStr '''',
     deadline_priority = PNone,
     environ_keys = [''FTRACK_API_USER'', ''FTRACK_API_KEY'', ''FTRACK_SERVER'',
       ''AYON_APP_NAME'', ''AYON_USERNAME'', ''AYON_SG_USERNAME'', ''KITSU_LOGIN'',
       ''KITSU_PWD''],
     plugin_pype_version = PStr ''3.0'' \<rparr>"

record ext =
  context_data :: dict
  os_environ :: "(string \<times> string) list"
  getuser :: "error + string"
  is_in_tests :: bool
  os_path_basename :: "string \<Rightarrow> string"
  os_path_splitext :: "string \<Rightarrow> string \<times> string"
  os_path_isfile :: "pyval \<Rightarrow> error + bool"
  open_error :: "string \<Rightarrow> error option"
  str_other :: "pyval \<Rightarrow> string"
  int_of_str :: "string \<Rightarrow> error + int"
  create_skeleton_instance :: "dict \<Rightarrow> error + dict"
  create_instances_for_aov :: "dict \<Rightarrow> dict \<Rightarrow> bool \<Rightarrow> error + pyval list"
  prepare_representations :: "dict \<Rightarrow> pyval \<Rightarrow> pyval \<Rightarrow> bool \<Rightarrow> error + pyval list"
  attach_instances_to_product :: "pyval \<Rightarrow> pyval list \<Rightarrow> error + pyval list"
  create_metadata_path :: "dict \<Rightarrow> pyval \<Rightarrow> error + string \<times> string"
  get_attr_values_from_data :: "dict \<Rightarrow> error + pyval"
  requests_post :: "string \<Rightarrow> payload \<Rightarrow> pyval \<Rightarrow> pyval \<Rightarrow> error + response"
  get_last_version_by_product_name :: "pyval \<Rightarrow> pyval \<Rightarrow> pyval \<Rightarrow> error + pyval"
  get_versioning_start ::
    "pyval \<Rightarrow> pyval \<Rightarrow> pyval \<Rightarrow> pyval \<Rightarrow> pyval \<Rightarrow> pyval \<Rightarrow> error + pyval"
  get_publish_template_name ::
    "pyval \<Rightarrow> pyval \<Rightarrow> pyval \<Rightarrow> pyval \<Rightarrow> pyval \<Rightarrow> error + pyval"
  format_directory :: "pyval \<Rightarrow> pyval \<Rightarrow> pyval \<Rightarrow> error + string"

text \<open>
  What a run can change: \<^verbatim>\<open>instance.data\<close>, the attribute \<^verbatim>\<open>self.deadline_url\<close>
  (unset before \<^verbatim>\<open>process\<close> assigns it), the files on disk, and the sequence of calls
  made to the collaborators.
\<close>

datatype file_content = Json dict | Partial

datatype call =
    CreateSkeletonInstance
  | CreateInstancesForAov
  | PrepareRepresentations
  | AttachInstancesToProduct
  | CreateMetadataPath
  | GetAttrValuesFromData
  | GetLastVersionByProductName pyval pyval pyval
  | GetVersioningStart
  | GetPublishTemplateName
  | FormatDirectory pyval pyval
  | RequestsPost string payload pyval pyval

record world =
  instance_data :: dict
  deadline_url :: "pyval option"
  files :: "string \<Rightarrow> file_content option"
  calls :: "call list"

text \<open>
  A step of the program takes the world and returns its result, a value or the exception
  raised, with the world it leaves behind. \<open>bindM\<close> runs two steps in sequence and stops
  at the first exception.
\<close>

type_synonym 'a run = "world \<Rightarrow> (error + 'a) \<times> world"

definition ret :: "'a \<Rightarrow> 'a run" where
  "ret x w = (Inr x, w)"

definition raise :: "error \<Rightarrow> 'a run" where
  "raise e w = (Inl e, w)"

definition lift :: "error + 'a \<Rightarrow> 'a run" where
  "lift r w = (r, w)"

definition bindM :: "'a run \<Rightarrow> ('a \<Rightarrow> 'b run) \<Rightarrow> 'b run" where
  "bindM m f w = (case m w of (Inl e, w') \<Rightarrow> (Inl e, w') | (Inr x, w') \<Rightarrow> f x w')"

definition extcall :: "call \<Rightarrow> error + 'a \<Rightarrow> 'a run" where
  "extcall c r w = (r, w\<lparr>calls := calls w @ [c]\<rparr>)"

definition get_data :: "dict run" where
  "get_data w = (Inr (instance_data w), w)"

text \<open>\<^verbatim>\<open>str(v)\<close>, as \<^verbatim>\<open>"{}".format(v)\<close> prints a value.\<close>

fun py_str :: "ext \<Rightarrow> pyval \<Rightarrow> string" where
  "py_str E (PStr s) = s"
| "py_str E (PInt i) = str_int i"
| "py_str E PNone = ''None''"
| "py_str E (PBool b) = (if b then ''True'' else ''False'')"
| "py_str E v = str_other E v"

text \<open>\<^verbatim>\<open>int(v)\<close>\<close>

fun py_int :: "ext \<Rightarrow> pyval \<Rightarrow> error + int" where
  "py_int E (PInt i) = Inr i"
| "py_int E (PBool b) = Inr (if b then 1 else 0)"
| "py_int E (PStr s) = int_of_str E s"
| "py_int E v = Inl TypeError"

text \<open>\<^verbatim>\<open>os.environ[k]\<close> and \<^verbatim>\<open>os.environ.get(k)\<close>\<close>

definition environ_getitem :: "ext \<Rightarrow> string \<Rightarrow> error + string" where
  "environ_getitem E k =
     (case map_of (os_environ E) k of None \<Rightarrow> Inl (KeyError k) | Some v \<Rightarrow> Inr v)"

definition environ_get :: "ext \<Rightarrow> string \<Rightarrow> pyval" where
  "environ_get E k = (case map_of (os_environ E) k of None \<Rightarrow> PNone | Some v \<Rightarrow> PStr v)"

definition bindE :: "error + 'a \<Rightarrow> ('a \<Rightarrow> error + 'b) \<Rightarrow> error + 'b" where
  "bindE r f = (case r of Inl e \<Rightarrow> Inl e | Inr x \<Rightarrow> f x)"

section \<open>Folder Resolver: \<^verbatim>\<open>_get_publish_folder\<close>\<close>

text \<open>
  The call \<^verbatim>\<open>get_versioning_start(...)\<close> of lines 543-551: its arguments are read in
  order (\<^verbatim>\<open>template_data["task"]\<close> is read twice by the code, with the same result).
\<close>

definition versioning_start :: "ext \<Rightarrow> pyval \<Rightarrow> pyval \<Rightarrow> pyval \<Rightarrow> pyval \<Rightarrow> pyval run" where
  "versioning_start E project_name host_name template_data product_name =
     bindM (lift (py_getitem template_data ''task'')) (\<lambda>task.
     bindM (lift (py_getitem task ''name'')) (\<lambda>task_name.
     bindM (lift (py_getitem task ''type'')) (\<lambda>task_type.
     bindM (lift (dict_getitem (context_data E) ''project_settings'')) (\<lambda>project_settings.
     extcall GetVersioningStart
       (get_versioning_start E project_name host_name task_name task_type product_name
          project_settings)))))"

text \<open>
  Lines 531-551: the version the folder is resolved for. \<open>version\<close> is the argument of
  \<^verbatim>\<open>_get_publish_folder\<close>; \<^verbatim>\<open>not version\<close> holds for \<^verbatim>\<open>None\<close> and for \<open>0\<close>.
\<close>

definition publish_version ::
  "ext \<Rightarrow> pyval \<Rightarrow> pyval \<Rightarrow> pyval \<Rightarrow> pyval \<Rightarrow> pyval \<Rightarrow> pyval \<Rightarrow> pyval run" where
  "publish_version E project_name host_name template_data folder_entity product_name version =
     (if truthy version then ret version
      else
        bindM
          (if truthy folder_entity then
             bindM (lift (py_getitem folder_entity ''id'')) (\<lambda>folder_id.
             extcall (GetLastVersionByProductName project_name product_name folder_id)
               (get_last_version_by_product_name E project_name product_name folder_id))
           else ret PNone) (\<lambda>version_entity.
        if truthy version_entity then
          bindM (lift (py_getitem version_entity ''version'')) (\<lambda>v.
          bindM (lift (py_int E v)) (\<lambda>i.
          ret (PInt (i + 1))))
        else versioning_start E project_name host_name template_data product_name))"

text \<open>
  \<^verbatim>\<open>_get_publish_folder\<close> (an Isabelle name cannot start with an underscore).
  \<open>format_directory\<close> stands for \<^verbatim>\<open>anatomy.get_template_item("publish", template_name,
  "directory").format_strict(template_data)\<close>.
\<close>

definition get_publish_folder ::
  "ext \<Rightarrow> pyval \<Rightarrow> pyval \<Rightarrow> pyval \<Rightarrow> pyval \<Rightarrow> pyval \<Rightarrow> pyval \<Rightarrow> string run" where
  "get_publish_folder E anatomy template_data folder_entity product_name product_type version =
     bindM (lift (dict_getitem (context_data E) ''projectName'')) (\<lambda>project_name.
     bindM (lift (dict_getitem (context_data E) ''hostName'')) (\<lambda>host_name.
     bindM (publish_version E project_name host_name template_data folder_entity product_name
              version) (\<lambda>version'.
     bindM (lift (py_get template_data ''task'' PNone)) (\<lambda>task.
     bindM (lift (py_get (py_or task (PDict [])) ''name'' PNone)) (\<lambda>task_name.
     bindM (lift (py_get (py_or task (PDict [])) ''type'' PNone)) (\<lambda>task_type.
     bindM (extcall GetPublishTemplateName
              (get_publish_template_name E project_name host_name product_type task_name
                 task_type)) (\<lambda>template_name.
     bindM (lift (py_setitem template_data ''version'' version')) (\<lambda>td1.
     bindM (lift (py_setitem td1 ''subset'' product_name)) (\<lambda>td2.
     bindM (lift (py_setitem td2 ''family'' product_type)) (\<lambda>td3.
     bindM (lift (py_setitem td3 ''product''
                    (PDict [(''name'', product_name), (''type'', product_type)]))) (\<lambda>td4.
     extcall (FormatDirectory template_name td4)
       (format_directory E anatomy template_name td4))))))))))))"

section \<open>Dependent Job Submitter: \<^verbatim>\<open>_submit_deadline_post_job\<close>\<close>

text \<open>Lines 179-182: the version handed to the Folder Resolver.\<close>

definition override_version :: "dict \<Rightarrow> pyval" where
  "override_version data =
     (let instance_version = dict_get data ''version'' in
      if py_ne_one instance_version then instance_version else PNone)"

text \<open>Lines 200-217: the environment of the publish job.\<close>

definition base_environment ::
  "ext \<Rightarrow> pyval \<Rightarrow> pyval \<Rightarrow> pyval \<Rightarrow> pyval \<Rightarrow> string \<Rightarrow> string \<Rightarrow> dict" where
  "base_environment E project_name folder_path task user bundle_name settings_variant =
     [(''AYON_PROJECT_NAME'', project_name),
      (''AYON_FOLDER_PATH'', folder_path),
      (''AYON_TASK_NAME'', task),
      (''AYON_USERNAME'', user),
      (''AYON_LOG_NO_COLORS'', PStr ''1''),
      (''AYON_IN_TESTS'', PStr (if is_in_tests E then ''1'' else ''0'')),
      (''AYON_PUBLISH_JOB'', PStr ''1''),
      (''AYON_RENDER_JOB'', PStr ''0''),
      (''AYON_REMOTE_PUBLISH'', PStr ''0''),
      (''AYON_BUNDLE_NAME'', PStr bundle_name),
      (''AYON_DEFAULT_SETTINGS_VARIANT'', PStr settings_variant)]"

definition forward_environ_keys :: "ext \<Rightarrow> string list \<Rightarrow> dict \<Rightarrow> dict" where
  "forward_environ_keys E keys environment =
     fold (\<lambda>env_key env.
             if truthy (environ_get E env_key)
             then AList.update env_key (environ_get E env_key) env else env)
       keys environment"

text \<open>Lines 224-234: the command line of the publish process.\<close>

definition publish_arguments :: "string \<Rightarrow> string \<Rightarrow> string" where
  "publish_arguments rootless_metadata_path settings_variant =
     ''--headless publish '' @ [CHR 0x22] @ rootless_metadata_path @ [CHR 0x22]
       @ '' --targets deadline --targets farm''
       @ (if settings_variant = ''staging'' then '' --use-staging'' else '''')"

text \<open>\<^verbatim>\<open>output_dir.replace("\\", "/")\<close>\<close>

definition forward_slashes :: "string \<Rightarrow> string" where
  "forward_slashes s = map (\<lambda>c. if c = CHR 0x5C then CHR ''/'' else c) s"

text \<open>Lines 237-258: the job description as the dictionary literal builds it.\<close>

definition initial_job_info ::
  "plugin \<Rightarrow> ext \<Rightarrow> dict \<Rightarrow> pyval \<Rightarrow> string \<Rightarrow> pyval \<Rightarrow> pyval \<Rightarrow> string \<Rightarrow> error + dict" where
  "initial_job_info P E data job job_name priority initial_status output_dir =
     (let secondary_pool = py_or (deadline_pool_secondary P) (dict_get data ''secondaryPool'') in
      bindE (py_getitem job ''Props'') (\<lambda>props.
      bindE (py_getitem props ''Batch'') (\<lambda>batch.
      bindE (py_getitem props ''User'') (\<lambda>user.
      Inr [(''Plugin'', PStr ''Ayon''),
           (''BatchName'', batch),
           (''Name'', PStr job_name),
           (''UserName'', user),
           (''Comment'', dict_get_default (context_data E) ''comment'' (PStr '''')),
           (''Department'', deadline_department P),
           (''ChunkSize'', PInt 1),
           (''Priority'', priority),
           (''InitialStatus'', initial_status),
           (''Group'', deadline_group P),
           (''Pool'', py_or (deadline_pool P) (dict_get data ''primaryPool'')),
           (''SecondaryPool'', secondary_pool),
           (''OutputDirectory0'', PStr (forward_slashes output_dir))]))))"

text \<open>
  Lines 268-286: the dependencies of the publish job. The loops number the ids from 0.
\<close>

definition add_job_dependencies :: "pyval list \<Rightarrow> dict \<Rightarrow> dict" where
  "add_job_dependencies ids info =
     fold (\<lambda>(job_index, assembly_id).
             AList.update (''JobDependency'' @ digits job_index) assembly_id)
       (List.enumerate 0 ids) info"

definition add_dependencies :: "dict \<Rightarrow> pyval \<Rightarrow> dict \<Rightarrow> error + dict" where
  "add_dependencies data job info =
     (if truthy (dict_get data ''tileRendering'') then
        bindE (py_iter (dict_get data ''assemblySubmissionJobs'')) (\<lambda>ids.
        Inr (add_job_dependencies ids info))
      else if truthy (dict_get data ''bakingSubmissionJobs'') then
        bindE (dict_getitem data ''bakingSubmissionJobs'') (\<lambda>baking.
        bindE (py_iter baking) (\<lambda>ids.
        Inr (add_job_dependencies ids info)))
      else
        bindE (py_get job ''_id'' PNone) (\<lambda>job_id.
        if truthy job_id then Inr (AList.update ''JobDependency0'' job_id info)
        else Inr info))"

text \<open>Lines 288-296: the environment, as numbered \<^verbatim>\<open>key=value\<close> entries.\<close>

definition add_environment :: "ext \<Rightarrow> dict \<Rightarrow> dict \<Rightarrow> dict" where
  "add_environment E environment info =
     fold (\<lambda>(index, (key, val)).
             AList.update (''EnvironmentKeyValue'' @ digits index)
               (PStr (key @ ''='' @ py_str E val)))
       (List.enumerate 0 environment) info"

text \<open>\<^verbatim>\<open>instances[0]\<close>\<close>

definition first_instance :: "pyval list \<Rightarrow> error + pyval" where
  "first_instance instances = (case instances of [] \<Rightarrow> Inl IndexError | x # _ \<Rightarrow> Inr x)"

text \<open>\<^verbatim>\<open>self.deadline_url\<close>: an \<^verbatim>\<open>AttributeError\<close> until \<^verbatim>\<open>process\<close> has assigned it.\<close>

definition get_deadline_url :: "pyval run" where
  "get_deadline_url w =
     (case deadline_url w of
        None \<Rightarrow> (Inl (AttributeError ''deadline_url''), w)
      | Some u \<Rightarrow> (Inr u, w))"

record request =
  req_url :: string
  req_payload :: payload
  req_auth :: pyval
  req_verify :: pyval

text \<open>
  Lines 194-304: what \<^verbatim>\<open>_submit_deadline_post_job\<close> does between the Folder Resolver's
  answer \<open>output_dir\<close> and the post: the request is put together.
\<close>

definition finish_request ::
  "plugin \<Rightarrow> ext \<Rightarrow> pyval \<Rightarrow> dict \<Rightarrow> pyval \<Rightarrow> pyval \<Rightarrow> string \<Rightarrow> request run" where
  "finish_request P E job data product_name anatomy output_dir =
     bindM (extcall CreateMetadataPath (create_metadata_path E data anatomy)) (\<lambda>paths.
     bindM (lift (environ_getitem E ''AYON_DEFAULT_SETTINGS_VARIANT'')) (\<lambda>settings_variant.
     bindM (lift (dict_getitem (context_data E) ''projectName'')) (\<lambda>project_name.
     bindM (lift (dict_getitem (context_data E) ''folderPath'')) (\<lambda>folder_path.
     bindM (lift (dict_getitem (context_data E) ''task'')) (\<lambda>task.
     bindM (lift (dict_getitem (context_data E) ''user'')) (\<lambda>user.
     bindM (lift (environ_getitem E ''AYON_BUNDLE_NAME'')) (\<lambda>bundle_name.
     bindM (extcall GetAttrValuesFromData (get_attr_values_from_data E data))
       (\<lambda>instance_settings.
     bindM (lift (py_get instance_settings ''publishJobState'' (PStr ''Active'')))
       (\<lambda>initial_status.
     bindM (lift (initial_job_info P E data job (''Publish - '' @ py_str E product_name)
                    (py_or (deadline_priority P) (dict_get_default data ''priority'' (PInt 50)))
                    initial_status output_dir)) (\<lambda>info0.
     bindM (lift (add_dependencies data job info0)) (\<lambda>info1.
     bindM get_deadline_url (\<lambda>url_base.
     bindM (lift (dict_getitem data ''deadline'')) (\<lambda>deadline.
     bindM (lift (py_getitem deadline ''auth'')) (\<lambda>auth.
     bindM (lift (py_getitem deadline ''verify'')) (\<lambda>verify.
     ret \<lparr>req_url = py_str E url_base @ ''/api/jobs'',
          req_payload = \<lparr>
            JobInfo = AList.delete ''SecondaryPool''
              (add_environment E
                 (forward_environ_keys E (environ_keys P)
                    (base_environment E project_name folder_path task user bundle_name
                       settings_variant))
                 info1),
            PluginInfo = [(''Version'', plugin_pype_version P),
                          (''Arguments'', PStr (publish_arguments (snd paths) settings_variant)),
                          (''SingleFrameOnly'', PStr ''True'')],
            AuxFiles = []\<rparr>,
          req_auth = auth,
          req_verify = verify\<rparr>)))))))))))))))"

text \<open>
  Lines 171-304: everything \<^verbatim>\<open>_submit_deadline_post_job\<close> does before it posts. Lines
  171-192 read the arguments of the Folder Resolver, in the order the call evaluates
  them, and call it with the override version.
\<close>

definition build_request :: "plugin \<Rightarrow> ext \<Rightarrow> pyval \<Rightarrow> pyval list \<Rightarrow> request run" where
  "build_request P E job instances =
     bindM get_data (\<lambda>data.
     bindM (lift (dict_getitem data ''productName'')) (\<lambda>product_name.
     bindM (lift (dict_getitem (context_data E) ''anatomy'')) (\<lambda>anatomy.
     bindM (lift (dict_getitem data ''anatomyData'')) (\<lambda>anatomy_data.
     bindM (lift (first_instance instances)) (\<lambda>instance0.
     bindM (lift (py_getitem instance0 ''productName'')) (\<lambda>product_name0.
     bindM (lift (py_getitem instance0 ''productType'')) (\<lambda>product_type0.
     bindM (get_publish_folder E anatomy anatomy_data (dict_get data ''folderEntity'')
              product_name0 product_type0 (override_version data))
       (finish_request P E job data product_name anatomy))))))))"

text \<open>Lines 305-312: the post, and what the response is turned into.\<close>

definition post_request :: "ext \<Rightarrow> request \<Rightarrow> pyval run" where
  "post_request E req =
     bindM (extcall (RequestsPost (req_url req) (req_payload req) (req_auth req) (req_verify req))
              (requests_post E (req_url req) (req_payload req) (req_auth req) (req_verify req)))
       (\<lambda>response.
     if \<not> resp_ok response then raise (Exception (resp_text response))
     else
       bindM (lift (resp_json response)) (\<lambda>body.
       lift (py_getitem body ''_id'')))"

definition submit_deadline_post_job :: "plugin \<Rightarrow> ext \<Rightarrow> pyval \<Rightarrow> pyval list \<Rightarrow> pyval run" where
  "submit_deadline_post_job P E job instances =
     bindM (build_request P E job instances) (post_request E)"

section \<open>The plug-in's entry point: \<^verbatim>\<open>process\<close>\<close>

text \<open>
  Lines 385-409: the instances to publish, from the skeleton and the expected files. In
  the flat-list branch the skeleton itself, with the representations added, is the only
  instance; the step returns the skeleton together with the instances.
\<close>

definition synthesize_instances ::
  "ext \<Rightarrow> dict \<Rightarrow> pyval \<Rightarrow> dict \<Rightarrow> (dict \<times> pyval list) run" where
  "synthesize_instances E data anatomy skeleton =
     (let do_not_add_review = (dict_get data ''review'' = PBool False) in
      bindM (lift (py_index0 (dict_get data ''expectedFiles''))) (\<lambda>first_expected.
      if is_dict first_expected then
        bindM (extcall CreateInstancesForAov
                 (create_instances_for_aov E data skeleton do_not_add_review)) (\<lambda>instances.
        ret (skeleton, instances))
      else
        bindM (extcall PrepareRepresentations
                 (prepare_representations E skeleton (dict_get data ''expectedFiles'') anatomy
                    do_not_add_review)) (\<lambda>representations.
        bindM (lift (dict_getitem
                 (if map_of skeleton ''representations'' = None
                  then AList.update ''representations'' (PList []) skeleton else skeleton)
                 ''representations'')) (\<lambda>present.
        bindM (lift (py_iadd present representations)) (\<lambda>extended.
        ret (AList.update ''representations'' extended skeleton,
             [PDict (AList.update ''representations'' extended skeleton)]))))))"

text \<open>
  Lines 431-457: the render job made up when no farm submission is known.
  \<^verbatim>\<open>os.path.basename\<close> raises a \<^verbatim>\<open>TypeError\<close> on anything that is not a path string.
\<close>

definition fake_render_job :: "ext \<Rightarrow> dict \<Rightarrow> error + pyval" where
  "fake_render_job E data =
     bindE (if truthy (dict_get data ''assemblySubmissionJobs'')
            then Inr (dict_get data ''jobBatchName'')
            else (case dict_get (context_data E) ''currentFile'' of
                    PStr current_file \<Rightarrow>
                      Inr (PStr (fst (os_path_splitext E (os_path_basename E current_file))))
                  | _ \<Rightarrow> Inl TypeError)) (\<lambda>batch.
     bindE (getuser E) (\<lambda>os_user.
     Inr (PDict [(''Props'', PDict
            [(''Batch'', batch),
             (''User'', dict_get_default (context_data E) ''deadlineUser'' (PStr os_user)),
             (''Env'', PDict
                [(''FTRACK_API_USER'', environ_get E ''FTRACK_API_USER''),
                 (''FTRACK_API_KEY'', environ_get E ''FTRACK_API_KEY''),
                 (''FTRACK_SERVER'', environ_get E ''FTRACK_SERVER'')])])])))"

text \<open>
  Lines 427-457: the render job is taken out of \<^verbatim>\<open>instance.data\<close>; without one the
  run stops when \<^verbatim>\<open>tileRendering\<close> is \<^verbatim>\<open>False\<close> and makes one up otherwise.
\<close>

definition take_render_job :: "ext \<Rightarrow> pyval run" where
  "take_render_job E w =
     (let render_job = dict_get (instance_data w) ''deadlineSubmissionJob'';
          w' = w\<lparr>instance_data := AList.delete ''deadlineSubmissionJob'' (instance_data w)\<rparr>
      in if \<not> truthy render_job \<and> dict_get (instance_data w') ''tileRendering'' = PBool False
         then (Inl (AssertionError ''Cannot continue without valid Deadline submission.''), w')
         else if \<not> truthy render_job then (fake_render_job E (instance_data w'), w')
         else (Inr render_job, w'))"

text \<open>Lines 460-461: the web service URL is stored on the plug-in, then checked.\<close>

definition set_deadline_url :: "unit run" where
  "set_deadline_url w =
     (case bindE (dict_getitem (instance_data w) ''deadline'') (\<lambda>deadline.
             py_getitem deadline ''url'') of
        Inl e \<Rightarrow> (Inl e, w)
      | Inr u \<Rightarrow>
          if truthy u then (Inr (), w\<lparr>deadline_url := Some u\<rparr>)
          else (Inl (AssertionError ''Requires Deadline Webservice URL''),
                w\<lparr>deadline_url := Some u\<rparr>))"

text \<open>Lines 467-468: every instance gets the farm's connection data.\<close>

fun inject_deadline :: "dict \<Rightarrow> pyval list \<Rightarrow> error + pyval list" where
  "inject_deadline data [] = Inr []"
| "inject_deadline data (inst # insts) =
     bindE (dict_getitem data ''deadline'') (\<lambda>deadline.
     bindE (py_setitem inst ''deadline'' deadline) (\<lambda>inst'.
     bindE (inject_deadline data insts) (\<lambda>insts'.
     Inr (inst' # insts'))))"

text \<open>Lines 471-483: the description of the publish job.\<close>

definition publish_job_description ::
  "ext \<Rightarrow> dict \<Rightarrow> pyval \<Rightarrow> pyval list \<Rightarrow> error + dict" where
  "publish_job_description E skeleton render_job instances =
     bindE (dict_getitem skeleton ''folderPath'') (\<lambda>folder_path.
     bindE (dict_getitem skeleton ''frameStart'') (\<lambda>frame_start.
     bindE (dict_getitem skeleton ''frameEnd'') (\<lambda>frame_end.
     bindE (dict_getitem skeleton ''fps'') (\<lambda>fps.
     bindE (dict_getitem skeleton ''source'') (\<lambda>source.
     bindE (dict_getitem (context_data E) ''user'') (\<lambda>user.
     bindE (dict_getitem (context_data E) ''version'') (\<lambda>version.
     Inr [(''folderPath'', folder_path),
          (''frameStart'', frame_start),
          (''frameEnd'', frame_end),
          (''fps'', fps),
          (''source'', source),
          (''user'', user),
          (''version'', version),
          (''intent'', dict_get (context_data E) ''intent''),
          (''comment'', dict_get (context_data E) ''comment''),
          (''job'', py_or render_job PNone),
          (''instances'', PList instances)])))))))"

text \<open>Lines 485-491: the two optional keys.\<close>

definition add_job_id :: "pyval \<Rightarrow> dict \<Rightarrow> dict" where
  "add_job_id deadline_publish_job_id publish_job =
     (if truthy deadline_publish_job_id
      then AList.update ''deadline_publish_job_id'' deadline_publish_job_id publish_job
      else publish_job)"

definition add_audio :: "ext \<Rightarrow> dict \<Rightarrow> error + dict" where
  "add_audio E publish_job =
     (let audio_file = dict_get (context_data E) ''audioFile'' in
      if truthy audio_file then
        bindE (os_path_isfile E audio_file) (\<lambda>is_file.
        if is_file then Inr (AList.update ''audio'' audio_file publish_job)
        else Inr publish_job)
      else Inr publish_job)"

text \<open>
  Lines 496-497: the file is opened for writing, which may fail, and the description is
  dumped into it as JSON; a value that JSON cannot express stops the dump with the file
  already opened.
\<close>

definition write_metadata :: "ext \<Rightarrow> string \<Rightarrow> dict \<Rightarrow> unit run" where
  "write_metadata E metadata_path publish_job w =
     (case open_error E metadata_path of
        Some e \<Rightarrow> (Inl e, w)
      | None \<Rightarrow>
          if serializable (PDict publish_job)
          then (Inr (), w\<lparr>files := (files w)(metadata_path \<mapsto> Json publish_job)\<rparr>)
          else (Inl TypeError, w\<lparr>files := (files w)(metadata_path \<mapsto> Partial)\<rparr>))"

text \<open>Lines 466-497: what \<^verbatim>\<open>process\<close> does once the farm has answered.\<close>

definition write_publish_job ::
  "ext \<Rightarrow> pyval \<Rightarrow> dict \<Rightarrow> pyval \<Rightarrow> pyval list \<Rightarrow> pyval \<Rightarrow> unit run" where
  "write_publish_job E anatomy skeleton render_job instances deadline_publish_job_id =
     bindM get_data (\<lambda>data.
     bindM (lift (inject_deadline data instances)) (\<lambda>instances'.
     bindM (lift (publish_job_description E skeleton render_job instances')) (\<lambda>publish_job.
     bindM (lift (add_audio E (add_job_id deadline_publish_job_id publish_job)))
       (\<lambda>publish_job'.
     bindM (extcall CreateMetadataPath (create_metadata_path E data anatomy)) (\<lambda>paths.
     write_metadata E (fst paths) publish_job')))))"

text \<open>Lines 330-415: skeleton and instances.\<close>

definition prepare_instances :: "ext \<Rightarrow> dict \<Rightarrow> (pyval \<times> dict \<times> pyval list) run" where
  "prepare_instances E data =
     bindM (lift (dict_getitem (context_data E) ''anatomy'')) (\<lambda>anatomy.
     bindM (extcall CreateSkeletonInstance (create_skeleton_instance E data)) (\<lambda>skeleton0.
     bindM (synthesize_instances E data anatomy skeleton0) (\<lambda>synthesized.
     bindM (if truthy (dict_get data ''attachTo'')
            then extcall AttachInstancesToProduct
                   (attach_instances_to_product E (dict_get data ''attachTo'') (snd synthesized))
            else ret (snd synthesized)) (\<lambda>instances.
     ret (anatomy, fst synthesized, instances)))))"

definition process :: "plugin \<Rightarrow> ext \<Rightarrow> unit run" where
  "process P E =
     bindM get_data (\<lambda>data.
     if \<not> truthy (dict_get data ''farm'') then ret ()
     else
       bindM (prepare_instances E data) (\<lambda>prepared.
       bindM (take_render_job E) (\<lambda>render_job.
       bindM set_deadline_url (\<lambda>_.
       bindM (submit_deadline_post_job P E render_job (snd (snd prepared)))
         (\<lambda>deadline_publish_job_id.
       write_publish_job E (fst prepared) (fst (snd prepared)) render_job (snd (snd prepared))
         deadline_publish_job_id)))))"

section \<open>Reading the trace\<close>

text \<open>The calls a run has added to the trace, and the payloads it has posted to the farm.\<close>

definition new_calls :: "world \<Rightarrow> world \<Rightarrow> call list" where
  "new_calls w w' = drop (length (calls w)) (calls w')"

fun is_post :: "call \<Rightarrow> bool" where
  "is_post (RequestsPost u p a v) = True"
| "is_post c = False"

fun is_tracking_query :: "call \<Rightarrow> bool" where
  "is_tracking_query (GetLastVersionByProductName p n f) = True"
| "is_tracking_query c = False"

fun posted_payload :: "call \<Rightarrow> payload list" where
  "posted_payload (RequestsPost u p a v) = [p]"
| "posted_payload c = []"

definition posted_payloads :: "call list \<Rightarrow> payload list" where
  "posted_payloads cs = concat (map posted_payload cs)"

text \<open>The \<^verbatim>\<open>JobDependencyN\<close> entries of a job description, in the order they stand in it.\<close>

definition dependency_entries :: "dict \<Rightarrow> dict" where
  "dependency_entries info = filter (\<lambda>kv. take 13 (fst kv) = ''JobDependency'') info"

text \<open>The entries the loops of lines 272-275 and 281-284 make of a list of ids.\<close>

definition numbered_dependencies :: "pyval list \<Rightarrow> dict" where
  "numbered_dependencies ids =
     map (\<lambda>ix. (''JobDependency'' @ digits (fst ix), snd ix)) (List.enumerate 0 ids)"

section \<open>A concrete scene\<close>

text \<open>
  One render instance with two expected frames, a render job on the farm and a farm that
  accepts the publish job. The collaborators are simple stand-ins; the path functions
  follow the POSIX rules on the paths used here.
\<close>

definition example_basename :: "string \<Rightarrow> string" where
  "example_basename p = rev (takeWhile (\<lambda>c. c \<noteq> CHR ''/'') (rev p))"

definition example_splitext :: "string \<Rightarrow> string \<times> string" where
  "example_splitext p =
     (let ext = takeWhile (\<lambda>c. c \<noteq> CHR ''.'') (rev p) in
      if length ext = length p then (p, '''')
      else (take (length p - length ext - 1) p, drop (length p - length ext - 1) p))"

definition example_context :: dict where
  "example_context =
     [(''anatomy'', PObj 0),
      (''projectName'', PStr ''demo''),
      (''hostName'', PStr ''maya''),
      (''folderPath'', PStr ''/shots/sh010''),
      (''task'', PStr ''lighting''),
      (''user'', PStr ''alice''),
      (''version'', PInt 3),
      (''project_settings'', PObj 1),
      (''currentFile'', PStr ''/work/sh010_v003.ma'')]"

definition example_skeleton :: dict where
  "example_skeleton =
     [(''folderPath'', PStr ''/shots/sh010''),
      (''frameStart'', PInt 1),
      (''frameEnd'', PInt 2),
      (''fps'', PInt 25),
      (''source'', PStr ''/work/sh010_v003.ma''),
      (''productName'', PStr ''renderMain''),
      (''productType'', PStr ''render'')]"

definition example_response :: response where
  "example_response =
     \<lparr>resp_ok = True, resp_text = ''{}'', resp_json = Inr (PDict [(''_id'', PStr ''pub456'')])\<rparr>"

definition failed_response :: response where
  "failed_response =
     \<lparr>resp_ok = False, resp_text = ''internal error'', resp_json = Inl (External ''JSONDecodeError'')\<rparr>"

definition example_ext :: ext where
  "example_ext = \<lparr>
     context_data = example_context,
     os_environ = [(''AYON_DEFAULT_SETTINGS_VARIANT'', ''production''),
                   (''AYON_BUNDLE_NAME'', ''bundle-1''),
                   (''AYON_USERNAME'', ''alice'')],
     getuser = Inr ''alice'',
     is_in_tests = False,
     os_path_basename = example_basename,
     os_path_splitext = example_splitext,
     os_path_isfile = (\<lambda>p. Inr (p = PStr ''/work/sh010.wav'')),
     open_error = (\<lambda>p. None),
     str_other = (\<lambda>v. ''<object>''),
     int_of_str = (\<lambda>s. Inl (External ''ValueError'')),
     create_skeleton_instance = (\<lambda>data. Inr example_skeleton),
     create_instances_for_aov = (\<lambda>data skeleton no_review. Inr [PDict skeleton]),
     prepare_representations = (\<lambda>skeleton expected anatomy no_review.
        Inr [PDict [(''name'', PStr ''exr''), (''files'', expected)]]),
     attach_instances_to_product = (\<lambda>attach_to instances. Inr instances),
     create_metadata_path = (\<lambda>data anatomy.
        Inr (''/renders/renderMain_metadata.json'', ''{root}/renders/renderMain_metadata.json'')),
     get_attr_values_from_data = (\<lambda>data. Inr (PDict [])),
     requests_post = (\<lambda>u p a v. Inr example_response),
     get_last_version_by_product_name = (\<lambda>project product folder_id.
        Inr (PDict [(''version'', PInt 4)])),
     get_versioning_start = (\<lambda>project host task_name task_type product settings. Inr (PInt 1)),
     get_publish_template_name = (\<lambda>project host product_type task_name task_type.
        Inr (PStr ''render'')),
     format_directory = (\<lambda>anatomy template_name template_data.
        Inr ''/publish/sh010/renderMain'') \<rparr>"

definition example_job :: pyval where
  "example_job =
     PDict [(''_id'', PStr ''abc123''),
            (''Props'', PDict [(''Batch'', PStr ''sh010_v003.ma''), (''User'', PStr ''alice'')])]"

definition example_data :: dict where
  "example_data =
     [(''farm'', PBool True),
      (''productName'', PStr ''renderMain''),
      (''expectedFiles'', PList [PStr ''foo.0001.exr'', PStr ''foo.0002.exr'']),
      (''anatomyData'', PDict [(''task'', PDict [(''name'', PStr ''lighting''),
                                                (''type'', PStr ''Lighting'')])]),
      (''folderEntity'', PDict [(''id'', PStr ''folder-1'')]),
      (''deadline'', PDict [(''url'', PStr ''http://farm:8082''), (''auth'', PNone),
                            (''verify'', PBool True)]),
      (''deadlineSubmissionJob'', example_job)]"

definition example_world :: "dict \<Rightarrow> world" where
  "example_world data =
     \<lparr>instance_data = data, deadline_url = None, files = Map.empty, calls = []\<rparr>"

text \<open>
  The world in which \<^verbatim>\<open>process\<close> calls \<^verbatim>\<open>_submit_deadline_post_job\<close> in this scene (the
  render job taken out of the instance data, the URL stored), and the payload posted.
\<close>

definition example_submit_world :: world where
  "example_submit_world =
     \<lparr>instance_data = AList.delete ''deadlineSubmissionJob'' example_data,
      deadline_url = Some (PStr ''http://farm:8082''), files = Map.empty, calls = []\<rparr>"

definition example_payload :: payload where
  "example_payload = \<lparr>
     JobInfo =
       [(''Plugin'', PStr ''Ayon''),
        (''BatchName'', PStr ''sh010_v003.ma''),
        (''Name'', PStr ''Publish - renderMain''),
        (''UserName'', PStr ''alice''),
        (''Comment'', PStr ''''),
        (''Department'', PStr ''''),
        (''ChunkSize'', PInt 1),
        (''Priority'', PInt 50),
        (''InitialStatus'', PStr ''Active''),
        (''Group'', PStr ''''),
        (''Pool'', PNone),
        (''OutputDirectory0'', PStr ''/publish/sh010/renderMain''),
        (''JobDependency0'', PStr ''abc123''),
        (''EnvironmentKeyValue0'', PStr ''AYON_PROJECT_NAME=demo''),
        (''EnvironmentKeyValue1'', PStr ''AYON_FOLDER_PATH=/shots/sh010''),
        (''EnvironmentKeyValue2'', PStr ''AYON_TASK_NAME=lighting''),
        (''EnvironmentKeyValue3'', PStr ''AYON_USERNAME=alice''),
        (''EnvironmentKeyValue4'', PStr ''AYON_LOG_NO_COLORS=1''),
        (''EnvironmentKeyValue5'', PStr ''AYON_IN_TESTS=0''),
        (''EnvironmentKeyValue6'', PStr ''AYON_PUBLISH_JOB=1''),
        (''EnvironmentKeyValue7'', PStr ''AYON_RENDER_JOB=0''),
        (''EnvironmentKeyValue8'', PStr ''AYON_REMOTE_PUBLISH=0''),
        (''EnvironmentKeyValue9'', PStr ''AYON_BUNDLE_NAME=bundle-1''),
        (''EnvironmentKeyValue10'', PStr ''AYON_DEFAULT_SETTINGS_VARIANT=production'')],
     PluginInfo =
       [(''Version'', PStr ''3.0''),
        (''Arguments'', PStr (''--headless publish '' @ [CHR 0x22]
           @ ''{root}/renders/renderMain_metadata.json'' @ [CHR 0x22]
           @ '' --targets deadline --targets farm'')),
        (''SingleFrameOnly'', PStr ''True'')],
     AuxFiles = [] \<rparr>"

text \<open>
  Variations of the scene: a farm that answers HTTP 500, a context that names an audio
  file, a context that names a farm user, and an instance without a render job.
\<close>

definition failing_farm_ext :: ext where
  "failing_farm_ext = example_ext\<lparr>requests_post := (\<lambda>u p a v. Inr failed_response)\<rparr>"

definition audio_ext :: ext where
  "audio_ext =
     example_ext\<lparr>context_data := example_context @ [(''audioFile'', PStr ''/work/sh010.wav'')]\<rparr>"

definition deadline_user_ext :: ext where
  "deadline_user_ext =
     example_ext\<lparr>context_data := example_context @ [(''deadlineUser'', PStr ''render-svc'')]\<rparr>"

definition example_data_without_job :: dict where
  "example_data_without_job = AList.delete ''deadlineSubmissionJob'' example_data"

section \<open>Notions used in the proofs\<close>

text \<open>
  A step is \<open>quiet\<close> when, from every world, it leaves the instance data, the plug-in's
  attribute and the files as they are and only adds calls to the trace, none of them a
  post to the farm.
\<close>

definition quiet :: "'a run \<Rightarrow> bool" where
  "quiet m =
     (\<forall>w. instance_data (snd (m w)) = instance_data w
        \<and> deadline_url (snd (m w)) = deadline_url w
        \<and> files (snd (m w)) = files w
        \<and> (\<exists>cs. calls (snd (m w)) = calls w @ cs \<and> filter is_post cs = []))"

text \<open>Reading a decimal numeral back: the inverse of \<open>digits\<close>.\<close>

definition undigits :: "string \<Rightarrow> nat" where
  "undigits s = foldl (\<lambda>a c. 10 * a + (of_char c - 48)) 0 s"

text \<open>A step is \<open>untracked\<close> when it never queries the tracking service.\<close>

definition untracked :: "'a run \<Rightarrow> bool" where
  "untracked m =
     (\<forall>w. \<exists>cs. calls (snd (m w)) = calls w @ cs \<and> filter is_tracking_query cs = [])"
section \<open>Properties of the Resource Collector\<close>

lemma remove_frame_filter:
  "distinct idx \<Longrightarrow> remove_frame frame idx = filter (\<lambda>i. i \<noteq> frame) idx"
proof (cases "frame \<in> set idx")
  case True
  assume "distinct idx"
  with True show ?thesis
    by (simp add: remove_frame_def distinct_remove1_removeAll removeAll_filter_not_eq)
      (rule filter_cong, auto)
next
  case False
  then have "filter (\<lambda>i. i \<noteq> frame) idx = idx"
    by (auto simp: filter_id_conv)
  with False show ?thesis by (simp add: remove_frame_def)
qed

lemma fold_remove_frame:
  "distinct idx \<Longrightarrow> fold remove_frame frames idx = filter (\<lambda>i. i \<notin> set frames) idx"
proof (induction frames arbitrary: idx)
  case Nil
  then show ?case by simp
next
  case (Cons f fs)
  have "fold remove_frame (f # fs) idx = fold remove_frame fs (filter (\<lambda>i. i \<noteq> f) idx)"
    using Cons.prems by (simp add: remove_frame_filter)
  also have "\<dots> = filter (\<lambda>i. i \<notin> set fs) (filter (\<lambda>i. i \<noteq> f) idx)"
    using Cons.prems by (intro Cons.IH) simp
  also have "\<dots> = filter (\<lambda>i. i \<notin> set (f # fs)) idx"
    by (simp add: conj_commute)
  finally show ?case .
qed

text \<open>
  Claim C5. Whenever \<^verbatim>\<open>clique.assemble\<close> detects more than one sequence pattern in the
  input, \<^verbatim>\<open>get_resource_files\<close> fails with the assertion error "Multiple collections
  found", with or without a frame range; no sequence is returned.
\<close>

theorem get_resource_files_multiple_collections:
  "1 < length (fst (assemble resources)) \<Longrightarrow>
     get_resource_files assemble resources frame_range
       = Inl (AssertionError ''Multiple collections found'')"
  by (simp add: get_resource_files_def)

theorem get_resource_files_multiple_collections_witness:
  "get_resource_files
     (\<lambda>_. ([\<lparr>head = ''foo.'', tail = ''.exr'', padding = 4, indexes = [1, 2]\<rparr>,
            \<lparr>head = ''xxx.'', tail = ''.exr'', padding = 4, indexes = [1, 2]\<rparr>], []))
     [''foo.0001.exr'', ''foo.0002.exr'', ''xxx.0001.exr'', ''xxx.0002.exr''] None
   = Inl (AssertionError ''Multiple collections found'')"
  using get_resource_files_multiple_collections
    [of "\<lambda>_. ([\<lparr>head = ''foo.'', tail = ''.exr'', padding = 4, indexes = [1, 2]\<rparr>,
              \<lparr>head = ''xxx.'', tail = ''.exr'', padding = 4, indexes = [1, 2]\<rparr>], [])"
        "[''foo.0001.exr'', ''foo.0002.exr'', ''xxx.0001.exr'', ''xxx.0002.exr'']" None]
  by simp

text \<open>
  Claim C6. When the input assembles into exactly one collection: without a frame range
  the result is the member list of the collection, in index order; with a frame range the
  result is the member list of exactly those indexes that do not occur in the frame
  range, in the same order. The frame range lists the frames to leave out.
\<close>

theorem get_resource_files_single_collection:
  "assemble resources = ([c], rest) \<Longrightarrow> distinct (indexes c) \<Longrightarrow>
     get_resource_files assemble resources None = Inr (map (collection_item c) (indexes c))
     \<and> get_resource_files assemble resources (Some frames)
         = Inr (map (collection_item c) (filter (\<lambda>i. i \<notin> set frames) (indexes c)))"
  by (simp add: get_resource_files_def collection_items_def collection_item_def
      fold_remove_frame)

theorem get_resource_files_single_collection_witness:
  "get_resource_files
     (\<lambda>_. ([\<lparr>head = ''foo.'', tail = ''.exr'', padding = 4, indexes = [1, 2, 3, 4]\<rparr>], []))
     [''foo.0001.exr'', ''foo.0002.exr'', ''foo.0003.exr'', ''foo.0004.exr''] None
     = Inr [''foo.0001.exr'', ''foo.0002.exr'', ''foo.0003.exr'', ''foo.0004.exr'']
   \<and> get_resource_files
     (\<lambda>_. ([\<lparr>head = ''foo.'', tail = ''.exr'', padding = 4, indexes = [1, 2, 3, 4]\<rparr>], []))
     [''foo.0001.exr'', ''foo.0002.exr'', ''foo.0003.exr'', ''foo.0004.exr''] (Some [2, 3, 7])
     = Inr [''foo.0001.exr'', ''foo.0004.exr'']"
proof -
  let ?c = "\<lparr>head = ''foo.'', tail = ''.exr'', padding = 4, indexes = [1, 2, 3, 4]\<rparr>"
  have items: "map (collection_item ?c) [1, 2, 3, 4]
      = [''foo.0001.exr'', ''foo.0002.exr'', ''foo.0003.exr'', ''foo.0004.exr'']"
    by code_simp
  have kept: "map (collection_item ?c) [1, 4] = [''foo.0001.exr'', ''foo.0004.exr'']"
    by code_simp
  show ?thesis
    using get_resource_files_single_collection
      [of "\<lambda>_. ([?c], [])"
          "[''foo.0001.exr'', ''foo.0002.exr'', ''foo.0003.exr'', ''foo.0004.exr'']"
          ?c "[]" "[2, 3, 7]"] items kept
    by simp
qed


section \<open>Running steps in sequence\<close>

lemma bindM_cases:
  assumes "bindM m f w = (res, w')"
  shows "(\<exists>e. m w = (Inl e, w') \<and> res = Inl e)
       \<or> (\<exists>x w1. m w = (Inr x, w1) \<and> f x w1 = (res, w'))"
proof (cases "m w")
  case (Pair r w1)
  with assms show ?thesis by (cases r) (simp_all add: bindM_def)
qed

lemma bindM_lift:
  "bindM (lift r) f w = (case r of Inl e \<Rightarrow> (Inl e, w) | Inr x \<Rightarrow> f x w)"
  by (simp add: bindM_def lift_def split: sum.splits)

lemma bindM_get_data: "bindM get_data f w = f (instance_data w) w"
  by (simp add: bindM_def get_data_def)

lemma bindM_extcall:
  "bindM (extcall c r) f w =
     (case r of Inl e \<Rightarrow> (Inl e, w\<lparr>calls := calls w @ [c]\<rparr>)
      | Inr x \<Rightarrow> f x (w\<lparr>calls := calls w @ [c]\<rparr>))"
  by (simp add: bindM_def extcall_def split: sum.splits)

lemma bindE_Inr: "bindE r f = Inr y \<Longrightarrow> \<exists>x. r = Inr x \<and> f x = Inr y"
  by (cases r) (simp_all add: bindE_def)

lemma new_calls_append: "calls w' = calls w @ cs \<Longrightarrow> new_calls w w' = cs"
  by (simp add: new_calls_def)

lemma bindM_ret: "bindM (ret x) f w = f x w"
  by (simp add: bindM_def ret_def)

lemma bindM_assoc: "bindM (bindM m f) g = bindM m (\<lambda>x. bindM (f x) g)"
proof
  fix w
  show "bindM (bindM m f) g w = bindM m (\<lambda>x. bindM (f x) g) w"
  proof (cases "m w")
    case (Pair r w1)
    then show ?thesis by (cases r) (simp_all add: bindM_def)
  qed
qed


section \<open>Local instances are skipped\<close>

text \<open>
  Claim C10. When \<^verbatim>\<open>instance.data\<close> has no truthy \<^verbatim>\<open>"farm"\<close> entry, \<^verbatim>\<open>process\<close> returns
  at once and leaves the world as it found it: the instance data and the files are
  unchanged, \<^verbatim>\<open>self.deadline_url\<close> is not assigned, and no collaborator is called (no
  skeleton is built, no folder resolved, nothing posted to the farm, no file written).
\<close>

theorem process_skips_local_instance:
  "\<not> truthy (dict_get (instance_data w) ''farm'') \<Longrightarrow> process P E w = (Inr (), w)"
  by (simp add: process_def bindM_def get_data_def ret_def)

theorem process_skips_local_instance_witness:
  "process default_plugin example_ext
     (example_world [(''productName'', PStr ''renderMain''), (''farm'', PBool False)])
   = (Inr (), example_world [(''productName'', PStr ''renderMain''), (''farm'', PBool False)])"
  using process_skips_local_instance
    [of "example_world [(''productName'', PStr ''renderMain''), (''farm'', PBool False)]"
        default_plugin example_ext]
  by (simp add: example_world_def dict_get_def dict_get_default_def)

section \<open>The override version\<close>

text \<open>
  Once its arguments are read, \<^verbatim>\<open>_submit_deadline_post_job\<close> is the call of the Folder
  Resolver with the override version, followed by the making of the request.
\<close>

lemma build_request_resolver:
  assumes "dict_getitem (instance_data w) ''productName'' = Inr product_name"
    and "dict_getitem (context_data E) ''anatomy'' = Inr anatomy"
    and "dict_getitem (instance_data w) ''anatomyData'' = Inr anatomy_data"
    and "first_instance instances = Inr instance0"
    and "py_getitem instance0 ''productName'' = Inr product_name0"
    and "py_getitem instance0 ''productType'' = Inr product_type0"
  shows "build_request P E job instances w
     = bindM (get_publish_folder E anatomy anatomy_data
                (dict_get (instance_data w) ''folderEntity'') product_name0 product_type0
                (override_version (instance_data w)))
         (finish_request P E job (instance_data w) product_name anatomy) w"
  by (simp add: build_request_def bindM_get_data bindM_lift assms)

text \<open>
  Claim C4 as stated fails on an instance that carries no version: the Folder Resolver is
  called with no override although the instance's version does not equal 1.
\<close>

theorem override_version_counterexample:
  "build_request default_plugin example_ext example_job [PDict example_skeleton]
     example_submit_world
   = bindM (get_publish_folder example_ext (PObj 0)
              (PDict [(''task'', PDict [(''name'', PStr ''lighting''),
                                        (''type'', PStr ''Lighting'')])])
              (PDict [(''id'', PStr ''folder-1'')]) (PStr ''renderMain'') (PStr ''render'')
              PNone)
       (finish_request default_plugin example_ext example_job
          (instance_data example_submit_world) (PStr ''renderMain'') (PObj 0))
       example_submit_world
   \<and> py_ne_one (dict_get (instance_data example_submit_world) ''version'')"
proof -
  have reads: "dict_getitem (instance_data example_submit_world) ''productName''
      = Inr (PStr ''renderMain'')"
    "dict_getitem (context_data example_ext) ''anatomy'' = Inr (PObj 0)"
    "dict_getitem (instance_data example_submit_world) ''anatomyData''
      = Inr (PDict [(''task'', PDict [(''name'', PStr ''lighting''),
                                      (''type'', PStr ''Lighting'')])])"
    "first_instance [PDict example_skeleton] = Inr (PDict example_skeleton)"
    "py_getitem (PDict example_skeleton) ''productName'' = Inr (PStr ''renderMain'')"
    "py_getitem (PDict example_skeleton) ''productType'' = Inr (PStr ''render'')"
    by code_simp+
  have passed: "dict_get (instance_data example_submit_world) ''folderEntity''
      = PDict [(''id'', PStr ''folder-1'')]"
    "override_version (instance_data example_submit_world) = PNone"
    "py_ne_one (dict_get (instance_data example_submit_world) ''version'')"
    by code_simp+
  from build_request_resolver [OF reads, of default_plugin example_job] passed
  show ?thesis by simp
qed

text \<open>
  Claim C4, amended. Whenever the Dependent Job Submitter gets as far as its call of the
  Folder Resolver (the instance data has \<^verbatim>\<open>productName\<close> and \<^verbatim>\<open>anatomyData\<close>, the
  context has \<^verbatim>\<open>anatomy\<close>, and the first synthesized instance has \<^verbatim>\<open>productName\<close> and
  \<^verbatim>\<open>productType\<close>), the version argument of that call is none exactly when the
  instance's version equals 1 (as Python compares, so \<^verbatim>\<open>True\<close> too) or is absent or
  \<^verbatim>\<open>None\<close>; every other version value is passed on as it is.
\<close>

theorem override_version_passed:
  assumes "dict_getitem (instance_data w) ''productName'' = Inr product_name"
    and "dict_getitem (context_data E) ''anatomy'' = Inr anatomy"
    and "dict_getitem (instance_data w) ''anatomyData'' = Inr anatomy_data"
    and "first_instance instances = Inr instance0"
    and "py_getitem instance0 ''productName'' = Inr product_name0"
    and "py_getitem instance0 ''productType'' = Inr product_type0"
  shows "build_request P E job instances w
     = bindM (get_publish_folder E anatomy anatomy_data
                (dict_get (instance_data w) ''folderEntity'') product_name0 product_type0
                (if dict_get (instance_data w) ''version'' = PInt 1
                    \<or> dict_get (instance_data w) ''version'' = PBool True
                 then PNone else dict_get (instance_data w) ''version''))
         (finish_request P E job (instance_data w) product_name anatomy) w
   \<and> ((if dict_get (instance_data w) ''version'' = PInt 1
           \<or> dict_get (instance_data w) ''version'' = PBool True
        then PNone else dict_get (instance_data w) ''version'') = PNone)
     = (dict_get (instance_data w) ''version'' = PInt 1
        \<or> dict_get (instance_data w) ''version'' = PBool True
        \<or> dict_get (instance_data w) ''version'' = PNone)"
proof -
  have "override_version (instance_data w)
      = (if dict_get (instance_data w) ''version'' = PInt 1
            \<or> dict_get (instance_data w) ''version'' = PBool True
         then PNone else dict_get (instance_data w) ''version'')"
    by (simp add: override_version_def py_ne_one_def Let_def)
  with build_request_resolver [OF assms, of P job] show ?thesis by auto
qed

theorem override_version_passed_witness:
  "build_request default_plugin example_ext example_job [PDict example_skeleton]
     (example_submit_world\<lparr>instance_data :=
        (''version'', PInt 7) # instance_data example_submit_world\<rparr>)
   = bindM (get_publish_folder example_ext (PObj 0)
              (PDict [(''task'', PDict [(''name'', PStr ''lighting''),
                                        (''type'', PStr ''Lighting'')])])
              (PDict [(''id'', PStr ''folder-1'')]) (PStr ''renderMain'') (PStr ''render'')
              (PInt 7))
       (finish_request default_plugin example_ext example_job
          ((''version'', PInt 7) # instance_data example_submit_world)
          (PStr ''renderMain'') (PObj 0))
       (example_submit_world\<lparr>instance_data :=
          (''version'', PInt 7) # instance_data example_submit_world\<rparr>)
   \<and> build_request default_plugin example_ext example_job [PDict example_skeleton]
     (example_submit_world\<lparr>instance_data :=
        (''version'', PInt 1) # instance_data example_submit_world\<rparr>)
   = bindM (get_publish_folder example_ext (PObj 0)
              (PDict [(''task'', PDict [(''name'', PStr ''lighting''),
                                        (''type'', PStr ''Lighting'')])])
              (PDict [(''id'', PStr ''folder-1'')]) (PStr ''renderMain'') (PStr ''render'')
              PNone)
       (finish_request default_plugin example_ext example_job
          ((''version'', PInt 1) # instance_data example_submit_world)
          (PStr ''renderMain'') (PObj 0))
       (example_submit_world\<lparr>instance_data :=
          (''version'', PInt 1) # instance_data example_submit_world\<rparr>)"
proof -
  let ?w7 = "example_submit_world\<lparr>instance_data :=
    (''version'', PInt 7) # instance_data example_submit_world\<rparr>"
  let ?w1 = "example_submit_world\<lparr>instance_data :=
    (''version'', PInt 1) # instance_data example_submit_world\<rparr>"
  let ?task = "PDict [(''task'', PDict [(''name'', PStr ''lighting''),
    (''type'', PStr ''Lighting'')])]"
  have ctx: "dict_getitem (context_data example_ext) ''anatomy'' = Inr (PObj 0)"
    and inst: "first_instance [PDict example_skeleton] = Inr (PDict example_skeleton)"
      "py_getitem (PDict example_skeleton) ''productName'' = Inr (PStr ''renderMain'')"
      "py_getitem (PDict example_skeleton) ''productType'' = Inr (PStr ''render'')"
    by code_simp+
  have r7: "dict_getitem (instance_data ?w7) ''productName'' = Inr (PStr ''renderMain'')"
    "dict_getitem (instance_data ?w7) ''anatomyData'' = Inr ?task"
    and v7: "dict_get (instance_data ?w7) ''version'' = PInt 7"
      "dict_get (instance_data ?w7) ''folderEntity'' = PDict [(''id'', PStr ''folder-1'')]"
    by code_simp+
  have r1: "dict_getitem (instance_data ?w1) ''productName'' = Inr (PStr ''renderMain'')"
    "dict_getitem (instance_data ?w1) ''anatomyData'' = Inr ?task"
    and v1: "dict_get (instance_data ?w1) ''version'' = PInt 1"
      "dict_get (instance_data ?w1) ''folderEntity'' = PDict [(''id'', PStr ''folder-1'')]"
    by code_simp+
  from override_version_passed [OF r7(1) ctx r7(2) inst, of default_plugin example_job] v7
    override_version_passed [OF r1(1) ctx r1(2) inst, of default_plugin example_job] v1
  show ?thesis by simp
qed


section \<open>Quiet steps\<close>

lemma quiet_ret: "quiet (ret x)"
  by (simp add: quiet_def ret_def)

lemma quiet_raise: "quiet (raise e)"
  by (simp add: quiet_def raise_def)

lemma quiet_lift: "quiet (lift r)"
  by (simp add: quiet_def lift_def)

lemma quiet_get_data: "quiet get_data"
  by (simp add: quiet_def get_data_def)

lemma quiet_get_deadline_url: "quiet get_deadline_url"
  by (simp add: quiet_def get_deadline_url_def split: option.splits)

lemma quiet_extcall: "\<not> is_post c \<Longrightarrow> quiet (extcall c r)"
  by (simp add: quiet_def extcall_def)

lemma quiet_if: "quiet m \<Longrightarrow> quiet m' \<Longrightarrow> quiet (if b then m else m')"
  by simp

lemma quiet_bindM:
  assumes m: "quiet m" and f: "\<And>x. quiet (f x)"
  shows "quiet (bindM m f)"
  unfolding quiet_def
proof
  fix w
  obtain r w1 where mw: "m w = (r, w1)" by (cases "m w")
  from m have m1: "instance_data w1 = instance_data w" "deadline_url w1 = deadline_url w"
    "files w1 = files w"
    and "\<exists>cs. calls w1 = calls w @ cs \<and> filter is_post cs = []"
    using mw by (auto simp: quiet_def dest: spec [of _ w])
  then obtain cs where cs: "calls w1 = calls w @ cs" "filter is_post cs = []" by blast
  show "instance_data (snd (bindM m f w)) = instance_data w
      \<and> deadline_url (snd (bindM m f w)) = deadline_url w
      \<and> files (snd (bindM m f w)) = files w
      \<and> (\<exists>cs. calls (snd (bindM m f w)) = calls w @ cs \<and> filter is_post cs = [])"
  proof (cases r)
    case (Inl e)
    then have "bindM m f w = (Inl e, w1)" by (simp add: bindM_def mw)
    with m1 cs show ?thesis by simp
  next
    case (Inr x)
    then have eq: "bindM m f w = f x w1" by (simp add: bindM_def mw)
    from f [of x] have f1: "instance_data (snd (f x w1)) = instance_data w1"
      "deadline_url (snd (f x w1)) = deadline_url w1" "files (snd (f x w1)) = files w1"
      and "\<exists>ds. calls (snd (f x w1)) = calls w1 @ ds \<and> filter is_post ds = []"
      by (auto simp: quiet_def dest: spec [of _ w1])
    then obtain ds where ds: "calls (snd (f x w1)) = calls w1 @ ds" "filter is_post ds = []"
      by blast
    have "calls (snd (f x w1)) = calls w @ (cs @ ds)" "filter is_post (cs @ ds) = []"
      using cs ds by simp_all
    then have "\<exists>es. calls (snd (f x w1)) = calls w @ es \<and> filter is_post es = []" by blast
    with f1 m1 eq show ?thesis by simp
  qed
qed

lemmas quiet_intros =
  quiet_bindM quiet_if quiet_ret quiet_raise quiet_lift quiet_get_data quiet_get_deadline_url
  quiet_extcall

lemma quietD:
  assumes "quiet m" and "m w = (r, w1)"
  shows "instance_data w1 = instance_data w" and "deadline_url w1 = deadline_url w"
    and "files w1 = files w"
    and "\<exists>cs. calls w1 = calls w @ cs \<and> filter is_post cs = []"
  using assms by (auto simp: quiet_def dest: spec [of _ w])

lemma quiet_versioning_start: "quiet (versioning_start E pn hn td pr)"
  unfolding versioning_start_def by (intro quiet_intros) simp

lemma quiet_publish_version: "quiet (publish_version E pn hn td fe pr v)"
  unfolding publish_version_def by (intro quiet_intros quiet_versioning_start) simp

lemma quiet_get_publish_folder: "quiet (get_publish_folder E an td fe pr pt v)"
  unfolding get_publish_folder_def by (intro quiet_intros quiet_publish_version) simp_all

lemma quiet_finish_request: "quiet (finish_request P E job data pn an od)"
  unfolding finish_request_def by (intro quiet_intros) simp_all

lemma quiet_build_request: "quiet (build_request P E job instances)"
  unfolding build_request_def
  by (intro quiet_intros quiet_get_publish_folder quiet_finish_request)

lemma quiet_synthesize_instances: "quiet (synthesize_instances E data anatomy skeleton)"
  unfolding synthesize_instances_def Let_def by (intro quiet_intros) simp_all

lemma quiet_prepare_instances: "quiet (prepare_instances E data)"
  unfolding prepare_instances_def by (intro quiet_intros quiet_synthesize_instances) simp_all

section \<open>The version the folder is resolved for\<close>

lemma publish_version_resolved:
  assumes implicit: "\<not> truthy version"
    and run: "publish_version E project_name host_name template_data folder_entity product_name
        version w = (Inr used, w1)"
  shows "(truthy folder_entity \<longrightarrow>
           (\<exists>folder_id version_entity.
              py_getitem folder_entity ''id'' = Inr folder_id
            \<and> get_last_version_by_product_name E project_name product_name folder_id
                = Inr version_entity
            \<and> (truthy version_entity \<longrightarrow>
                 (\<exists>v latest. py_getitem version_entity ''version'' = Inr v
                    \<and> py_int E v = Inr latest \<and> used = PInt (latest + 1))
                 \<and> new_calls w w1
                     = [GetLastVersionByProductName project_name product_name folder_id])
            \<and> (\<not> truthy version_entity \<longrightarrow>
                 (\<exists>task task_name task_type project_settings.
                    py_getitem template_data ''task'' = Inr task
                  \<and> py_getitem task ''name'' = Inr task_name
                  \<and> py_getitem task ''type'' = Inr task_type
                  \<and> dict_getitem (context_data E) ''project_settings'' = Inr project_settings
                  \<and> get_versioning_start E project_name host_name task_name task_type
                       product_name project_settings = Inr used)
                 \<and> new_calls w w1
                     = [GetLastVersionByProductName project_name product_name folder_id,
                        GetVersioningStart])))
       \<and> (\<not> truthy folder_entity \<longrightarrow>
           (\<exists>task task_name task_type project_settings.
              py_getitem template_data ''task'' = Inr task
            \<and> py_getitem task ''name'' = Inr task_name
            \<and> py_getitem task ''type'' = Inr task_type
            \<and> dict_getitem (context_data E) ''project_settings'' = Inr project_settings
            \<and> get_versioning_start E project_name host_name task_name task_type
                 product_name project_settings = Inr used)
           \<and> new_calls w w1 = [GetVersioningStart])"
  using assms
  by (auto simp: publish_version_def versioning_start_def bindM_assoc bindM_lift
      bindM_extcall bindM_ret ret_def extcall_def new_calls_def
      split: sum.splits if_splits)


lemma py_setitem_Inr:
  "py_setitem v k x = Inr v' \<Longrightarrow> \<exists>d. v = PDict d \<and> v' = PDict (AList.update k x d)"
  by (cases v) auto

lemma get_publish_folder_formatted:
  assumes run: "get_publish_folder E anatomy template_data folder_entity product_name
      product_type version w = (Inr folder, w')"
  shows "\<exists>project_name host_name used w1 template_name formatted.
      dict_getitem (context_data E) ''projectName'' = Inr project_name
    \<and> dict_getitem (context_data E) ''hostName'' = Inr host_name
    \<and> publish_version E project_name host_name template_data folder_entity product_name
        version w = (Inr used, w1)
    \<and> w' = w1\<lparr>calls := calls w1
          @ [GetPublishTemplateName, FormatDirectory template_name formatted]\<rparr>
    \<and> format_directory E anatomy template_name formatted = Inr folder
    \<and> py_getitem formatted ''version'' = Inr used"
proof -
  from run have "\<exists>project_name host_name.
      dict_getitem (context_data E) ''projectName'' = Inr project_name
    \<and> dict_getitem (context_data E) ''hostName'' = Inr host_name"
    by (auto simp: get_publish_folder_def bindM_lift split: sum.splits)
  then obtain project_name host_name
    where pn: "dict_getitem (context_data E) ''projectName'' = Inr project_name"
      and hn: "dict_getitem (context_data E) ''hostName'' = Inr host_name"
    by blast
  obtain r w1 where pv: "publish_version E project_name host_name template_data folder_entity
      product_name version w = (r, w1)"
    by (cases "publish_version E project_name host_name template_data folder_entity
      product_name version w")
  show ?thesis
  proof (cases r)
    case (Inl e)
    with pv have stop: "bindM (publish_version E project_name host_name template_data
        folder_entity product_name version) f w = (Inl e, w1)" for f
      by (simp add: bindM_def)
    from run pn hn show ?thesis
      by (simp add: get_publish_folder_def bindM_lift stop)
  next
    case (Inr used)
    with pv have pv': "publish_version E project_name host_name template_data folder_entity
      product_name version w = (Inr used, w1)" by simp
    then have step: "bindM (publish_version E project_name host_name template_data
        folder_entity product_name version) f w = f used w1" for f
      by (simp add: bindM_def)
    from run pn hn have "\<exists>template_name td1 td2 td3 td4.
        py_setitem template_data ''version'' used = Inr td1
      \<and> py_setitem td1 ''subset'' product_name = Inr td2
      \<and> py_setitem td2 ''family'' product_type = Inr td3
      \<and> py_setitem td3 ''product'' (PDict [(''name'', product_name), (''type'', product_type)])
          = Inr td4
      \<and> format_directory E anatomy template_name td4 = Inr folder
      \<and> w' = w1\<lparr>calls := calls w1
            @ [GetPublishTemplateName, FormatDirectory template_name td4]\<rparr>"
      by (auto simp: get_publish_folder_def bindM_lift step bindM_extcall
          extcall_def split: sum.splits)
    then obtain template_name td1 td2 td3 td4
      where s1: "py_setitem template_data ''version'' used = Inr td1"
        and s2: "py_setitem td1 ''subset'' product_name = Inr td2"
        and s3: "py_setitem td2 ''family'' product_type = Inr td3"
        and s4: "py_setitem td3 ''product''
          (PDict [(''name'', product_name), (''type'', product_type)]) = Inr td4"
        and fmt: "format_directory E anatomy template_name td4 = Inr folder"
        and w': "w' = w1\<lparr>calls := calls w1
            @ [GetPublishTemplateName, FormatDirectory template_name td4]\<rparr>"
      by blast
    from py_setitem_Inr [OF s1] py_setitem_Inr [OF s2] py_setitem_Inr [OF s3]
      py_setitem_Inr [OF s4]
    have "py_getitem td4 ''version'' = Inr used"
      by (auto simp: dict_getitem_def AList.update_conv')
    with pn hn pv' w' fmt show ?thesis by blast
  qed
qed

lemma untracked_ret: "untracked (ret x)"
  by (simp add: untracked_def ret_def)

lemma untracked_lift: "untracked (lift r)"
  by (simp add: untracked_def lift_def)

lemma untracked_extcall: "\<not> is_tracking_query c \<Longrightarrow> untracked (extcall c r)"
  by (simp add: untracked_def extcall_def)

lemma untracked_if: "untracked m \<Longrightarrow> untracked m' \<Longrightarrow> untracked (if b then m else m')"
  by simp

lemma untracked_bindM:
  assumes m: "untracked m" and f: "\<And>x. untracked (f x)"
  shows "untracked (bindM m f)"
  unfolding untracked_def
proof
  fix w
  obtain r w1 where mw: "m w = (r, w1)" by (cases "m w")
  from m obtain cs where cs: "calls w1 = calls w @ cs" "filter is_tracking_query cs = []"
    using mw by (auto simp: untracked_def dest: spec [of _ w])
  show "\<exists>cs. calls (snd (bindM m f w)) = calls w @ cs \<and> filter is_tracking_query cs = []"
  proof (cases r)
    case (Inl e)
    then have "bindM m f w = (Inl e, w1)" by (simp add: bindM_def mw)
    with cs show ?thesis by simp
  next
    case (Inr x)
    then have eq: "bindM m f w = f x w1" by (simp add: bindM_def mw)
    from f [of x] obtain ds
      where ds: "calls (snd (f x w1)) = calls w1 @ ds" "filter is_tracking_query ds = []"
      by (auto simp: untracked_def dest: spec [of _ w1])
    have "calls (snd (f x w1)) = calls w @ (cs @ ds)" "filter is_tracking_query (cs @ ds) = []"
      using cs ds by simp_all
    with eq show ?thesis by metis
  qed
qed

lemmas untracked_intros =
  untracked_bindM untracked_if untracked_ret untracked_lift untracked_extcall

lemma untracked_versioning_start: "untracked (versioning_start E pn hn td pr)"
  unfolding versioning_start_def by (intro untracked_intros) simp

lemma tracked_bindM:
  assumes m: "calls (snd (m w)) = calls w @ cs" and f: "\<And>x. untracked (f x)"
  shows "filter is_tracking_query (new_calls w (snd (bindM m f w)))
       = filter is_tracking_query cs"
proof -
  obtain r w1 where mw: "m w = (r, w1)" by (cases "m w")
  with m have w1: "calls w1 = calls w @ cs" by simp
  show ?thesis
  proof (cases r)
    case (Inl e)
    then have "bindM m f w = (Inl e, w1)" by (simp add: bindM_def mw)
    with w1 show ?thesis by (simp add: new_calls_def)
  next
    case (Inr x)
    then have eq: "bindM m f w = f x w1" by (simp add: bindM_def mw)
    from f [of x] obtain ds
      where ds: "calls (snd (f x w1)) = calls w1 @ ds" "filter is_tracking_query ds = []"
      by (auto simp: untracked_def dest: spec [of _ w1])
    with w1 eq show ?thesis by (simp add: new_calls_def)
  qed
qed

lemma publish_version_queries:
  assumes "\<not> truthy version" and "truthy folder_entity"
    and "py_getitem folder_entity ''id'' = Inr folder_id"
  shows "\<exists>cs. calls (snd (publish_version E project_name host_name template_data
        folder_entity product_name version w))
      = calls w @ (GetLastVersionByProductName project_name product_name folder_id # cs)
    \<and> filter is_tracking_query cs = []"
proof -
  let ?c = "GetLastVersionByProductName project_name product_name folder_id"
  let ?k = "\<lambda>version_entity.
    if truthy version_entity then
      bindM (lift (py_getitem version_entity ''version'')) (\<lambda>v.
      bindM (lift (py_int E v)) (\<lambda>i.
      ret (PInt (i + 1))))
    else versioning_start E project_name host_name template_data product_name"
  have k: "untracked (?k version_entity)" for version_entity
    by (intro untracked_intros untracked_versioning_start)
  have eq: "publish_version E project_name host_name template_data folder_entity product_name
      version w
    = bindM (extcall ?c
        (get_last_version_by_product_name E project_name product_name folder_id)) ?k w"
    using assms by (simp add: publish_version_def bindM_assoc bindM_lift)
  show ?thesis
  proof (cases "get_last_version_by_product_name E project_name product_name folder_id")
    case (Inl e)
    then show ?thesis unfolding eq by (simp add: bindM_extcall)
  next
    case (Inr version_entity)
    from k [of version_entity] obtain ds
      where "calls (snd (?k version_entity (w\<lparr>calls := calls w @ [?c]\<rparr>)))
          = calls (w\<lparr>calls := calls w @ [?c]\<rparr>) @ ds"
        and "filter is_tracking_query ds = []"
      unfolding untracked_def by blast
    with Inr show ?thesis unfolding eq by (simp add: bindM_extcall)
  qed
qed

lemma publish_version_untracked:
  assumes "\<not> truthy version" and "\<not> truthy folder_entity"
  shows "untracked (publish_version E project_name host_name template_data folder_entity
    product_name version)"
  using assms unfolding publish_version_def
  by (simp add: untracked_intros untracked_versioning_start)

lemma get_publish_folder_no_folder_entity:
  assumes "\<not> truthy version" and "\<not> truthy folder_entity"
  shows "filter is_tracking_query
     (new_calls w (snd (get_publish_folder E anatomy template_data folder_entity product_name
        product_type version w))) = []"
proof -
  have "untracked (get_publish_folder E anatomy template_data folder_entity product_name
      product_type version)"
    unfolding get_publish_folder_def
    by (intro untracked_intros publish_version_untracked assms) simp_all
  then obtain cs
    where "calls (snd (get_publish_folder E anatomy template_data folder_entity product_name
        product_type version w)) = calls w @ cs" "filter is_tracking_query cs = []"
    unfolding untracked_def by blast
  then show ?thesis by (simp add: new_calls_def)
qed

lemma get_publish_folder_queries:
  assumes implicit: "\<not> truthy version" and given: "truthy folder_entity"
    and pn: "dict_getitem (context_data E) ''projectName'' = Inr project_name"
    and hn: "dict_getitem (context_data E) ''hostName'' = Inr host_name"
    and id: "py_getitem folder_entity ''id'' = Inr folder_id"
  shows "filter is_tracking_query
     (new_calls w (snd (get_publish_folder E anatomy template_data folder_entity product_name
        product_type version w)))
     = [GetLastVersionByProductName project_name product_name folder_id]"
proof -
  from publish_version_queries [OF implicit given id] obtain cs
    where cs: "calls (snd (publish_version E project_name host_name template_data
        folder_entity product_name version w))
      = calls w @ (GetLastVersionByProductName project_name product_name folder_id # cs)"
      and none: "filter is_tracking_query cs = []"
    by blast
  have step: "filter is_tracking_query
      (new_calls w (snd (bindM (publish_version E project_name host_name template_data
         folder_entity product_name version) f w)))
    = [GetLastVersionByProductName project_name product_name folder_id]"
    if "\<And>x. untracked (f x)" for f
    using tracked_bindM [where m = "publish_version E project_name host_name template_data
      folder_entity product_name version" and w = w and f = f, OF cs that] none
    by simp
  show ?thesis
    unfolding get_publish_folder_def
    apply (simp only: bindM_lift pn hn sum.case)
    apply (rule step)
    apply (intro untracked_intros)
    apply simp_all
    done
qed

text \<open>
  Claim C7 as stated fails on a call without a folder entity: no explicit version is
  given, the folder is resolved, and the tracking service is never queried.
\<close>

theorem get_publish_folder_counterexample:
  "fst (get_publish_folder example_ext (PObj 0)
          (PDict [(''task'', PDict [(''name'', PStr ''lighting''), (''type'', PStr ''Lighting'')])])
          PNone (PStr ''renderMain'') (PStr ''render'') PNone (example_world example_data))
     = Inr ''/publish/sh010/renderMain''
   \<and> filter is_tracking_query
       (calls (snd (get_publish_folder example_ext (PObj 0)
          (PDict [(''task'', PDict [(''name'', PStr ''lighting''), (''type'', PStr ''Lighting'')])])
          PNone (PStr ''renderMain'') (PStr ''render'') PNone (example_world example_data))))
     = []"
  by code_simp

text \<open>
  Claim C7, amended. For every Folder Resolver call without an explicit version
  (\<^verbatim>\<open>None\<close> or 0): when no folder entity is given, the tracking service is never
  queried; when a folder entity with an id is given (and the context names the project
  and the host), the tracking service is queried exactly once, for the last version of
  the product under that folder's id. Whenever the call returns a folder, the last thing
  it did was to format the directory template with a version, and that version is the
  found version entity's version plus one when the query found one (the versioning-policy
  lookup is then not called); when it found none, or when no folder entity is given, it is
  what the host/task/product-type specific start-version lookup
  \<^verbatim>\<open>get_versioning_start\<close> returned for the task's name and type read from the
  template data, the tracking service contributing nothing to the number.
\<close>

theorem get_publish_folder_without_explicit_version:
  assumes implicit: "\<not> truthy version"
  shows
    "(\<not> truthy folder_entity \<longrightarrow>
        filter is_tracking_query
          (new_calls w (snd (get_publish_folder E anatomy template_data folder_entity
             product_name product_type version w))) = [])
     \<and> (truthy folder_entity \<longrightarrow>
        dict_getitem (context_data E) ''projectName'' = Inr project \<longrightarrow>
        dict_getitem (context_data E) ''hostName'' = Inr host \<longrightarrow>
        py_getitem folder_entity ''id'' = Inr folder_id \<longrightarrow>
        filter is_tracking_query
          (new_calls w (snd (get_publish_folder E anatomy template_data folder_entity
             product_name product_type version w)))
        = [GetLastVersionByProductName project product_name folder_id])
     \<and> (get_publish_folder E anatomy template_data folder_entity product_name product_type
          version w = (Inr folder, w') \<longrightarrow>
        (\<exists>project_name host_name template_name formatted used.
           dict_getitem (context_data E) ''projectName'' = Inr project_name
         \<and> dict_getitem (context_data E) ''hostName'' = Inr host_name
         \<and> last (new_calls w w') = FormatDirectory template_name formatted
         \<and> format_directory E anatomy template_name formatted = Inr folder
         \<and> py_getitem formatted ''version'' = Inr used
         \<and> (truthy folder_entity \<longrightarrow>
              (\<exists>id version_entity.
                 py_getitem folder_entity ''id'' = Inr id
               \<and> get_last_version_by_product_name E project_name product_name id
                   = Inr version_entity
               \<and> (truthy version_entity \<longrightarrow>
                    (\<exists>v latest. py_getitem version_entity ''version'' = Inr v
                       \<and> py_int E v = Inr latest \<and> used = PInt (latest + 1))
                    \<and> GetVersioningStart \<notin> set (new_calls w w'))
               \<and> (\<not> truthy version_entity \<longrightarrow>
                    (\<exists>task task_name task_type project_settings.
                       py_getitem template_data ''task'' = Inr task
                     \<and> py_getitem task ''name'' = Inr task_name
                     \<and> py_getitem task ''type'' = Inr task_type
                     \<and> dict_getitem (context_data E) ''project_settings''
                         = Inr project_settings
                     \<and> get_versioning_start E project_name host_name task_name task_type
                          product_name project_settings = Inr used)
                    \<and> GetVersioningStart \<in> set (new_calls w w'))))
         \<and> (\<not> truthy folder_entity \<longrightarrow>
              (\<exists>task task_name task_type project_settings.
                 py_getitem template_data ''task'' = Inr task
               \<and> py_getitem task ''name'' = Inr task_name
               \<and> py_getitem task ''type'' = Inr task_type
               \<and> dict_getitem (context_data E) ''project_settings'' = Inr project_settings
               \<and> get_versioning_start E project_name host_name task_name task_type
                    product_name project_settings = Inr used)
              \<and> GetVersioningStart \<in> set (new_calls w w'))))"
proof (intro conjI impI)
  assume "\<not> truthy folder_entity"
  with implicit show "filter is_tracking_query
      (new_calls w (snd (get_publish_folder E anatomy template_data folder_entity
         product_name product_type version w))) = []"
    by (rule get_publish_folder_no_folder_entity)
next
  assume "truthy folder_entity"
    and "dict_getitem (context_data E) ''projectName'' = Inr project"
    and "dict_getitem (context_data E) ''hostName'' = Inr host"
    and "py_getitem folder_entity ''id'' = Inr folder_id"
  with implicit show "filter is_tracking_query
      (new_calls w (snd (get_publish_folder E anatomy template_data folder_entity
         product_name product_type version w)))
    = [GetLastVersionByProductName project product_name folder_id]"
    by (rule get_publish_folder_queries)
next
  assume run: "get_publish_folder E anatomy template_data folder_entity product_name
    product_type version w = (Inr folder, w')"
  from get_publish_folder_formatted [OF run]
  obtain project_name host_name used w1 template_name formatted
    where pn: "dict_getitem (context_data E) ''projectName'' = Inr project_name"
      and hn: "dict_getitem (context_data E) ''hostName'' = Inr host_name"
      and pv: "publish_version E project_name host_name template_data folder_entity
        product_name version w = (Inr used, w1)"
      and w': "w' = w1\<lparr>calls := calls w1
            @ [GetPublishTemplateName, FormatDirectory template_name formatted]\<rparr>"
      and fmt: "format_directory E anatomy template_name formatted = Inr folder"
      and ver: "py_getitem formatted ''version'' = Inr used"
    by blast
  from quietD(4) [OF quiet_publish_version pv] obtain cs where "calls w1 = calls w @ cs"
    by blast
  with w' have nc: "new_calls w w1 = cs"
    "new_calls w w' = cs @ [GetPublishTemplateName, FormatDirectory template_name formatted]"
    by (simp_all add: new_calls_def)
  note resolved = publish_version_resolved [OF implicit pv, unfolded nc(1)]
  have final: "last (new_calls w w') = FormatDirectory template_name formatted"
    by (simp add: nc)
  have given: "truthy folder_entity \<longrightarrow>
      (\<exists>id version_entity.
         py_getitem folder_entity ''id'' = Inr id
       \<and> get_last_version_by_product_name E project_name product_name id = Inr version_entity
       \<and> (truthy version_entity \<longrightarrow>
            (\<exists>v latest. py_getitem version_entity ''version'' = Inr v
               \<and> py_int E v = Inr latest \<and> used = PInt (latest + 1))
            \<and> GetVersioningStart \<notin> set (new_calls w w'))
       \<and> (\<not> truthy version_entity \<longrightarrow>
            (\<exists>task task_name task_type project_settings.
               py_getitem template_data ''task'' = Inr task
             \<and> py_getitem task ''name'' = Inr task_name
             \<and> py_getitem task ''type'' = Inr task_type
             \<and> dict_getitem (context_data E) ''project_settings'' = Inr project_settings
             \<and> get_versioning_start E project_name host_name task_name task_type
                  product_name project_settings = Inr used)
            \<and> GetVersioningStart \<in> set (new_calls w w')))"
  proof
    assume "truthy folder_entity"
    with resolved obtain id version_entity
      where id: "py_getitem folder_entity ''id'' = Inr id"
        and ve: "get_last_version_by_product_name E project_name product_name id
          = Inr version_entity"
        and found: "truthy version_entity \<longrightarrow>
            (\<exists>v latest. py_getitem version_entity ''version'' = Inr v
               \<and> py_int E v = Inr latest \<and> used = PInt (latest + 1))
            \<and> cs = [GetLastVersionByProductName project_name product_name id]"
        and missing: "\<not> truthy version_entity \<longrightarrow>
            (\<exists>task task_name task_type project_settings.
               py_getitem template_data ''task'' = Inr task
             \<and> py_getitem task ''name'' = Inr task_name
             \<and> py_getitem task ''type'' = Inr task_type
             \<and> dict_getitem (context_data E) ''project_settings'' = Inr project_settings
             \<and> get_versioning_start E project_name host_name task_name task_type
                  product_name project_settings = Inr used)
            \<and> cs = [GetLastVersionByProductName project_name product_name id,
                    GetVersioningStart]"
      by blast
    from found have f: "truthy version_entity \<longrightarrow>
        (\<exists>v latest. py_getitem version_entity ''version'' = Inr v
           \<and> py_int E v = Inr latest \<and> used = PInt (latest + 1))
        \<and> GetVersioningStart \<notin> set (new_calls w w')"
      by (auto simp: nc)
    from missing have m: "\<not> truthy version_entity \<longrightarrow>
        (\<exists>task task_name task_type project_settings.
           py_getitem template_data ''task'' = Inr task
         \<and> py_getitem task ''name'' = Inr task_name
         \<and> py_getitem task ''type'' = Inr task_type
         \<and> dict_getitem (context_data E) ''project_settings'' = Inr project_settings
         \<and> get_versioning_start E project_name host_name task_name task_type
              product_name project_settings = Inr used)
        \<and> GetVersioningStart \<in> set (new_calls w w')"
      by (auto simp: nc)
    from id ve f m show "\<exists>id version_entity.
         py_getitem folder_entity ''id'' = Inr id
       \<and> get_last_version_by_product_name E project_name product_name id = Inr version_entity
       \<and> (truthy version_entity \<longrightarrow>
            (\<exists>v latest. py_getitem version_entity ''version'' = Inr v
               \<and> py_int E v = Inr latest \<and> used = PInt (latest + 1))
            \<and> GetVersioningStart \<notin> set (new_calls w w'))
       \<and> (\<not> truthy version_entity \<longrightarrow>
            (\<exists>task task_name task_type project_settings.
               py_getitem template_data ''task'' = Inr task
             \<and> py_getitem task ''name'' = Inr task_name
             \<and> py_getitem task ''type'' = Inr task_type
             \<and> dict_getitem (context_data E) ''project_settings'' = Inr project_settings
             \<and> get_versioning_start E project_name host_name task_name task_type
                  product_name project_settings = Inr used)
            \<and> GetVersioningStart \<in> set (new_calls w w'))"
      by blast
  qed
  have absent: "\<not> truthy folder_entity \<longrightarrow>
      (\<exists>task task_name task_type project_settings.
         py_getitem template_data ''task'' = Inr task
       \<and> py_getitem task ''name'' = Inr task_name
       \<and> py_getitem task ''type'' = Inr task_type
       \<and> dict_getitem (context_data E) ''project_settings'' = Inr project_settings
       \<and> get_versioning_start E project_name host_name task_name task_type
            product_name project_settings = Inr used)
      \<and> GetVersioningStart \<in> set (new_calls w w')"
    using resolved by (auto simp: nc)
  from pn hn final fmt ver given absent
  show "\<exists>project_name host_name template_name formatted used.
           dict_getitem (context_data E) ''projectName'' = Inr project_name
         \<and> dict_getitem (context_data E) ''hostName'' = Inr host_name
         \<and> last (new_calls w w') = FormatDirectory template_name formatted
         \<and> format_directory E anatomy template_name formatted = Inr folder
         \<and> py_getitem formatted ''version'' = Inr used
         \<and> (truthy folder_entity \<longrightarrow>
              (\<exists>id version_entity.
                 py_getitem folder_entity ''id'' = Inr id
               \<and> get_last_version_by_product_name E project_name product_name id
                   = Inr version_entity
               \<and> (truthy version_entity \<longrightarrow>
                    (\<exists>v latest. py_getitem version_entity ''version'' = Inr v
                       \<and> py_int E v = Inr latest \<and> used = PInt (latest + 1))
                    \<and> GetVersioningStart \<notin> set (new_calls w w'))
               \<and> (\<not> truthy version_entity \<longrightarrow>
                    (\<exists>task task_name task_type project_settings.
                       py_getitem template_data ''task'' = Inr task
                     \<and> py_getitem task ''name'' = Inr task_name
                     \<and> py_getitem task ''type'' = Inr task_type
                     \<and> dict_getitem (context_data E) ''project_settings''
                         = Inr project_settings
                     \<and> get_versioning_start E project_name host_name task_name task_type
                          product_name project_settings = Inr used)
                    \<and> GetVersioningStart \<in> set (new_calls w w'))))
         \<and> (\<not> truthy folder_entity \<longrightarrow>
              (\<exists>task task_name task_type project_settings.
                 py_getitem template_data ''task'' = Inr task
               \<and> py_getitem task ''name'' = Inr task_name
               \<and> py_getitem task ''type'' = Inr task_type
               \<and> dict_getitem (context_data E) ''project_settings'' = Inr project_settings
               \<and> get_versioning_start E project_name host_name task_name task_type
                    product_name project_settings = Inr used)
              \<and> GetVersioningStart \<in> set (new_calls w w'))"
    by (intro exI [where x = project_name] exI [where x = host_name]
        exI [where x = template_name] exI [where x = formatted] exI [where x = used] conjI)
qed

theorem get_publish_folder_without_explicit_version_witness:
  "filter is_tracking_query
     (new_calls (example_world example_data)
        (snd (get_publish_folder example_ext (PObj 0)
           (PDict [(''task'', PDict [(''name'', PStr ''lighting''),
                                     (''type'', PStr ''Lighting'')])])
           (PDict [(''id'', PStr ''folder-1'')]) (PStr ''renderMain'') (PStr ''render'') PNone
           (example_world example_data))))
   = [GetLastVersionByProductName (PStr ''demo'') (PStr ''renderMain'') (PStr ''folder-1'')]
   \<and> filter is_tracking_query
     (new_calls (example_world example_data)
        (snd (get_publish_folder example_ext (PObj 0)
           (PDict [(''task'', PDict [(''name'', PStr ''lighting''),
                                     (''type'', PStr ''Lighting'')])])
           PNone (PStr ''renderMain'') (PStr ''render'') PNone
           (example_world example_data))))
   = []
   \<and> (\<exists>template_name formatted.
        last (new_calls (example_world example_data)
          (snd (get_publish_folder example_ext (PObj 0)
             (PDict [(''task'', PDict [(''name'', PStr ''lighting''),
                                       (''type'', PStr ''Lighting'')])])
             (PDict [(''id'', PStr ''folder-1'')]) (PStr ''renderMain'') (PStr ''render'')
             PNone (example_world example_data))))
        = FormatDirectory template_name formatted
      \<and> py_getitem formatted ''version'' = Inr (PInt 5))"
proof -
  let ?td = "PDict [(''task'', PDict [(''name'', PStr ''lighting''),
    (''type'', PStr ''Lighting'')])]"
  let ?fe = "PDict [(''id'', PStr ''folder-1'')]"
  let ?w = "example_world example_data"
  let ?run = "get_publish_folder example_ext (PObj 0) ?td ?fe (PStr ''renderMain'')
    (PStr ''render'') PNone ?w"
  have implicit: "\<not> truthy PNone" by simp
  have given: "truthy ?fe" "\<not> truthy PNone"
    and reads: "dict_getitem (context_data example_ext) ''projectName'' = Inr (PStr ''demo'')"
      "dict_getitem (context_data example_ext) ''hostName'' = Inr (PStr ''maya'')"
      "py_getitem ?fe ''id'' = Inr (PStr ''folder-1'')"
    by code_simp+
  have "fst ?run = Inr ''/publish/sh010/renderMain''" by code_simp
  then have run: "?run = (Inr ''/publish/sh010/renderMain'', snd ?run)"
    by (metis prod.collapse)
  note facts = get_publish_folder_without_explicit_version [OF implicit,
      where E = example_ext and anatomy = "PObj 0" and template_data = ?td
        and product_name = "PStr ''renderMain''" and product_type = "PStr ''render''"
        and w = ?w]
  from facts [where folder_entity = ?fe and project = "PStr ''demo''"
      and host = "PStr ''maya''" and folder_id = "PStr ''folder-1''"] given(1) reads
  have queried: "filter is_tracking_query (new_calls ?w (snd ?run))
      = [GetLastVersionByProductName (PStr ''demo'') (PStr ''renderMain'') (PStr ''folder-1'')]"
    by blast
  from facts [where folder_entity = PNone] given(2)
  have silent: "filter is_tracking_query
      (new_calls ?w (snd (get_publish_folder example_ext (PObj 0) ?td PNone
         (PStr ''renderMain'') (PStr ''render'') PNone ?w))) = []"
    by blast
  from facts [where folder_entity = ?fe and folder = "''/publish/sh010/renderMain''"
      and w' = "snd ?run"] run given(1)
  obtain project_name template_name formatted used id version_entity
    where final: "last (new_calls ?w (snd ?run)) = FormatDirectory template_name formatted"
      and ver: "py_getitem formatted ''version'' = Inr used"
      and ve: "get_last_version_by_product_name example_ext project_name (PStr ''renderMain'') id
        = Inr version_entity"
      and found: "truthy version_entity \<longrightarrow>
        (\<exists>v latest. py_getitem version_entity ''version'' = Inr v
           \<and> py_int example_ext v = Inr latest \<and> used = PInt (latest + 1))
        \<and> GetVersioningStart \<notin> set (new_calls ?w (snd ?run))"
    by blast
  from ve have "version_entity = PDict [(''version'', PInt 4)]"
    by (simp add: example_ext_def)
  with found have "used = PInt 5"
    by (auto simp: dict_getitem_def)
  with final ver queried silent show ?thesis by blast
qed


section \<open>The job description that is posted\<close>

lemma undigits_digits: "undigits (digits n) = n"
proof (induction n rule: digits.induct)
  case (1 n)
  show ?case
  proof (cases "n < 10")
    case True
    then show ?thesis
      by (subst digits.simps) (simp add: undigits_def)
  next
    case False
    with 1 have ih: "undigits (digits (n div 10)) = n div 10" by simp
    have "n mod 10 < 10" by simp
    then have "(48 + n mod 10) mod 256 = 48 + n mod 10" by simp
    with False ih show ?thesis
      by (subst digits.simps) (simp add: undigits_def)
  qed
qed

lemma digits_inj: "digits m = digits n \<Longrightarrow> m = n"
  by (metis undigits_digits)

lemma update_fresh: "k \<notin> fst ` set al \<Longrightarrow> AList.update k v al = al @ [(k, v)]"
  by (induction al) auto

lemma fold_update_fresh:
  "distinct (map fst kvs) \<Longrightarrow> fst ` set kvs \<inter> fst ` set al = {} \<Longrightarrow>
     fold (\<lambda>kv. AList.update (fst kv) (snd kv)) kvs al = al @ kvs"
proof (induction kvs arbitrary: al)
  case Nil
  then show ?case by simp
next
  case (Cons kv kvs)
  from Cons.prems have fresh: "fst kv \<notin> fst ` set al" by auto
  have "fold (\<lambda>kv. AList.update (fst kv) (snd kv)) (kv # kvs) al
      = fold (\<lambda>kv. AList.update (fst kv) (snd kv)) kvs (al @ [kv])"
    using fresh by (simp add: update_fresh)
  also have "\<dots> = (al @ [kv]) @ kvs"
    using Cons.prems by (intro Cons.IH) auto
  finally show ?case by simp
qed

lemma add_job_dependencies_fold:
  "add_job_dependencies ids info
     = fold (\<lambda>kv. AList.update (fst kv) (snd kv)) (numbered_dependencies ids) info"
  by (simp add: add_job_dependencies_def numbered_dependencies_def fold_map comp_def
      split_def)

lemma numbered_dependencies_keys:
  "map fst (numbered_dependencies ids)
     = map (\<lambda>i. ''JobDependency'' @ digits i) [0..<length ids]"
proof -
  have "map fst (numbered_dependencies ids)
      = map (\<lambda>i. ''JobDependency'' @ digits i) (map fst (List.enumerate 0 ids))"
    unfolding numbered_dependencies_def by (simp only: map_map comp_def fst_conv)
  then show ?thesis by simp
qed

lemma numbered_dependencies_distinct: "distinct (map fst (numbered_dependencies ids))"
  unfolding numbered_dependencies_keys
  by (auto simp: distinct_map inj_on_def dest: digits_inj)

lemma dependency_entries_append:
  "dependency_entries (al @ bl) = dependency_entries al @ dependency_entries bl"
  by (simp add: dependency_entries_def)

lemma dependency_entries_numbered:
  "dependency_entries (numbered_dependencies ids) = numbered_dependencies ids"
  by (simp add: dependency_entries_def numbered_dependencies_def filter_map comp_def)

lemma add_job_dependencies_entries:
  assumes "dependency_entries info = []"
  shows "dependency_entries (add_job_dependencies ids info) = numbered_dependencies ids"
proof -
  have keys: "\<And>k. k \<in> fst ` set (numbered_dependencies ids) \<Longrightarrow> take 13 k = ''JobDependency''"
    by (auto simp: numbered_dependencies_def)
  have "\<And>kv. kv \<in> set info \<Longrightarrow> take 13 (fst kv) \<noteq> ''JobDependency''"
    using assms by (auto simp: dependency_entries_def filter_empty_conv)
  with keys have "fst ` set (numbered_dependencies ids) \<inter> fst ` set info = {}"
    by fastforce
  then have "add_job_dependencies ids info = info @ numbered_dependencies ids"
    unfolding add_job_dependencies_fold
    by (intro fold_update_fresh numbered_dependencies_distinct)
  then show ?thesis
    using assms by (simp add: dependency_entries_append dependency_entries_numbered)
qed

lemma dependency_entries_update_other:
  "take 13 k \<noteq> ''JobDependency'' \<Longrightarrow>
     dependency_entries (AList.update k v al) = dependency_entries al"
  by (induction al) (auto simp: dependency_entries_def)

lemma dependency_entries_delete_other:
  "take 13 k \<noteq> ''JobDependency'' \<Longrightarrow>
     dependency_entries (AList.delete k al) = dependency_entries al"
  by (induction al) (auto simp: dependency_entries_def)

lemma dependency_entries_environment_fold:
  "dependency_entries
     (fold (\<lambda>(index, (key, val)).
              AList.update (''EnvironmentKeyValue'' @ digits index)
                (PStr (key @ ''='' @ py_str E val))) xs info)
   = dependency_entries info"
  by (induction xs arbitrary: info) (auto simp: dependency_entries_update_other)

lemma dependency_entries_add_environment:
  "dependency_entries (add_environment E environment info) = dependency_entries info"
  unfolding add_environment_def by (rule dependency_entries_environment_fold)

lemma initial_job_info_no_dependencies:
  "initial_job_info P E data job n p s od = Inr info0 \<Longrightarrow> dependency_entries info0 = []"
  by (auto simp: initial_job_info_def bindE_def Let_def dependency_entries_def
      split: sum.splits)

lemma initial_job_info_secondary_pool:
  "initial_job_info P E data job n p s od = Inr info0 \<Longrightarrow>
     map_of info0 ''SecondaryPool''
       = Some (py_or (deadline_pool_secondary P) (dict_get data ''secondaryPool''))"
  by (auto simp: initial_job_info_def bindE_def Let_def split: sum.splits)

lemma build_request_payload:
  assumes "build_request P E job instances w = (Inr req, w')"
  shows "\<exists>job_name priority initial_status output_dir info0 info1 environment.
      initial_job_info P E (instance_data w) job job_name priority initial_status output_dir
        = Inr info0
    \<and> add_dependencies (instance_data w) job info0 = Inr info1
    \<and> JobInfo (req_payload req)
        = AList.delete ''SecondaryPool'' (add_environment E environment info1)"
  using assms
  unfolding build_request_def finish_request_def bindM_def lift_def ret_def get_data_def
    extcall_def get_deadline_url_def
  apply (auto split: sum.splits prod.splits option.splits)
  apply blast
  done

lemma not_posted: "filter is_post cs = [] \<Longrightarrow> RequestsPost u p a v \<notin> set cs"
  by (auto simp: filter_empty_conv)

lemma post_request_result:
  "post_request E req w =
     ((case requests_post E (req_url req) (req_payload req) (req_auth req) (req_verify req) of
         Inl e \<Rightarrow> Inl e
       | Inr r \<Rightarrow>
           if \<not> resp_ok r then Inl (Exception (resp_text r))
           else bindE (resp_json r) (\<lambda>body. py_getitem body ''_id'')),
      w\<lparr>calls := calls w
            @ [RequestsPost (req_url req) (req_payload req) (req_auth req) (req_verify req)]\<rparr>)"
  by (simp add: post_request_def bindM_def extcall_def raise_def lift_def bindE_def
      split: sum.splits)

text \<open>
  Whatever \<^verbatim>\<open>_submit_deadline_post_job\<close> has posted is the request it built, posted
  once, as the last call of the run; the result is read off the farm's response.
\<close>

lemma submit_posted:
  assumes run: "submit_deadline_post_job P E job instances w = (res, w')"
    and posted: "RequestsPost u p a v \<in> set (new_calls w w')"
  shows "\<exists>req w1. build_request P E job instances w = (Inr req, w1)
      \<and> u = req_url req \<and> p = req_payload req \<and> a = req_auth req \<and> v = req_verify req
      \<and> instance_data w1 = instance_data w \<and> files w1 = files w
      \<and> w' = w1\<lparr>calls := calls w1 @ [RequestsPost u p a v]\<rparr>
      \<and> res = (case requests_post E u p a v of
                 Inl e \<Rightarrow> Inl e
               | Inr r \<Rightarrow>
                   if \<not> resp_ok r then Inl (Exception (resp_text r))
                   else bindE (resp_json r) (\<lambda>body. py_getitem body ''_id''))"
proof -
  obtain rb w1 where built: "build_request P E job instances w = (rb, w1)"
    by (cases "build_request P E job instances w")
  from quietD [OF quiet_build_request built]
  obtain cs where w1: "instance_data w1 = instance_data w" "files w1 = files w"
    "calls w1 = calls w @ cs" "filter is_post cs = []"
    by blast
  show ?thesis
  proof (cases rb)
    case (Inl e)
    with run built have "w' = w1"
      by (simp add: submit_deadline_post_job_def bindM_def)
    with w1 have "new_calls w w' = cs" by (simp add: new_calls_append)
    with posted not_posted [OF w1(4)] show ?thesis by simp
  next
    case (Inr req)
    let ?c = "RequestsPost (req_url req) (req_payload req) (req_auth req) (req_verify req)"
    from run built Inr have post: "post_request E req w1 = (res, w')"
      by (simp add: submit_deadline_post_job_def bindM_def)
    then have w': "w' = w1\<lparr>calls := calls w1 @ [?c]\<rparr>"
      by (simp add: post_request_result)
    with w1 have "new_calls w w' = cs @ [?c]" by (simp add: new_calls_def)
    with posted not_posted [OF w1(4)] have c: "RequestsPost u p a v = ?c" by auto
    with post w' w1 built Inr show ?thesis
      by (auto simp: post_request_result)
  qed
qed

lemma posted_job_info:
  assumes "submit_deadline_post_job P E job instances w = (res, w')"
    and "RequestsPost u p a v \<in> set (new_calls w w')"
  shows "\<exists>job_name priority initial_status output_dir info0 info1 environment.
      initial_job_info P E (instance_data w) job job_name priority initial_status output_dir
        = Inr info0
    \<and> add_dependencies (instance_data w) job info0 = Inr info1
    \<and> JobInfo p = AList.delete ''SecondaryPool'' (add_environment E environment info1)"
proof -
  from submit_posted [OF assms] obtain req w1
    where "build_request P E job instances w = (Inr req, w1)" and "p = req_payload req"
    by blast
  with build_request_payload [of P E job instances w req w1] show ?thesis by simp
qed

lemma dependency_entries_single:
  assumes "dependency_entries info = []" and "take 13 k = ''JobDependency''"
  shows "dependency_entries (AList.update k v info) = [(k, v)]"
proof -
  from assms have "k \<notin> fst ` set info"
    by (auto simp: dependency_entries_def filter_empty_conv)
  then have "AList.update k v info = info @ [(k, v)]" by (rule update_fresh)
  with assms show ?thesis by (simp add: dependency_entries_def)
qed

lemma job_dependency0_prefix: "take 13 ''JobDependency0'' = ''JobDependency''"
  by simp

lemma add_dependencies_entries:
  assumes added: "add_dependencies data job info0 = Inr info1"
    and none: "dependency_entries info0 = []"
  shows "(truthy (dict_get data ''tileRendering'') \<longrightarrow>
           (\<exists>ids. py_iter (dict_get data ''assemblySubmissionJobs'') = Inr ids
              \<and> dependency_entries info1 = numbered_dependencies ids))
       \<and> (\<not> truthy (dict_get data ''tileRendering'')
            \<and> truthy (dict_get data ''bakingSubmissionJobs'') \<longrightarrow>
           (\<exists>ids. py_iter (dict_get data ''bakingSubmissionJobs'') = Inr ids
              \<and> dependency_entries info1 = numbered_dependencies ids))
       \<and> (\<not> truthy (dict_get data ''tileRendering'')
            \<and> \<not> truthy (dict_get data ''bakingSubmissionJobs'') \<longrightarrow>
           (\<exists>job_id. py_get job ''_id'' PNone = Inr job_id
              \<and> dependency_entries info1
                  = (if truthy job_id then [(''JobDependency0'', job_id)] else [])))"
proof (intro conjI impI)
  assume tile: "truthy (dict_get data ''tileRendering'')"
  with added have "bindE (py_iter (dict_get data ''assemblySubmissionJobs''))
      (\<lambda>ids. Inr (add_job_dependencies ids info0)) = Inr info1"
    by (simp add: add_dependencies_def)
  from bindE_Inr [OF this] obtain ids
    where "py_iter (dict_get data ''assemblySubmissionJobs'') = Inr ids"
      and "info1 = add_job_dependencies ids info0"
    by auto
  with none show "\<exists>ids. py_iter (dict_get data ''assemblySubmissionJobs'') = Inr ids
      \<and> dependency_entries info1 = numbered_dependencies ids"
    by (simp add: add_job_dependencies_entries)
next
  assume c: "\<not> truthy (dict_get data ''tileRendering'')
    \<and> truthy (dict_get data ''bakingSubmissionJobs'')"
  then have "map_of data ''bakingSubmissionJobs'' \<noteq> None"
    by (auto simp: dict_get_def dict_get_default_def split: option.splits)
  then have baking: "dict_getitem data ''bakingSubmissionJobs''
      = Inr (dict_get data ''bakingSubmissionJobs'')"
    by (auto simp: dict_getitem_def dict_get_def dict_get_default_def)
  from added c have "bindE (dict_getitem data ''bakingSubmissionJobs'') (\<lambda>baking.
      bindE (py_iter baking) (\<lambda>ids. Inr (add_job_dependencies ids info0))) = Inr info1"
    by (simp add: add_dependencies_def)
  with baking have "bindE (py_iter (dict_get data ''bakingSubmissionJobs''))
      (\<lambda>ids. Inr (add_job_dependencies ids info0)) = Inr info1"
    by (simp add: bindE_def)
  from bindE_Inr [OF this] obtain ids
    where "py_iter (dict_get data ''bakingSubmissionJobs'') = Inr ids"
      and "info1 = add_job_dependencies ids info0"
    by auto
  with none show "\<exists>ids. py_iter (dict_get data ''bakingSubmissionJobs'') = Inr ids
      \<and> dependency_entries info1 = numbered_dependencies ids"
    by (simp add: add_job_dependencies_entries)
next
  assume c: "\<not> truthy (dict_get data ''tileRendering'')
    \<and> \<not> truthy (dict_get data ''bakingSubmissionJobs'')"
  with added have "bindE (py_get job ''_id'' PNone) (\<lambda>job_id.
      if truthy job_id then Inr (AList.update ''JobDependency0'' job_id info0)
      else Inr info0) = Inr info1"
    by (simp add: add_dependencies_def)
  from bindE_Inr [OF this] obtain job_id
    where got: "py_get job ''_id'' PNone = Inr job_id"
      and info1: "info1 = (if truthy job_id then AList.update ''JobDependency0'' job_id info0
                           else info0)"
    by (auto split: if_splits)
  have "dependency_entries info1
      = (if truthy job_id then [(''JobDependency0'', job_id)] else [])"
    unfolding info1
    using none dependency_entries_single [OF none job_dependency0_prefix, of job_id]
    by (simp del: AList.update.simps)
  with got show "\<exists>job_id. py_get job ''_id'' PNone = Inr job_id
      \<and> dependency_entries info1
          = (if truthy job_id then [(''JobDependency0'', job_id)] else [])"
    by blast
qed

section \<open>The dependencies of the publish job\<close>

text \<open>
  Claim C1 as stated fails on an instance that carries tile-assembly job ids but no
  truthy \<^verbatim>\<open>tileRendering\<close> flag: the payload posted depends on the render job, not on
  the assembly jobs.
\<close>

theorem dependencies_counterexample:
  "map (\<lambda>p. dependency_entries (JobInfo p))
     (posted_payloads (calls (snd (process default_plugin example_ext
        (example_world
           (example_data @ [(''assemblySubmissionJobs'', PList [PStr ''asm1'', PStr ''asm2''])]))))))
   = [[(''JobDependency0'', PStr ''abc123'')]]"
  by code_simp

text \<open>
  Claim C1, amended. In every payload that \<^verbatim>\<open>_submit_deadline_post_job\<close> posts, the
  \<^verbatim>\<open>JobDependencyN\<close> entries come from exactly one source, chosen in this order: if the
  instance's \<^verbatim>\<open>tileRendering\<close> flag is truthy, one entry per id of
  \<^verbatim>\<open>assemblySubmissionJobs\<close>, numbered from 0; otherwise, if \<^verbatim>\<open>bakingSubmissionJobs\<close>
  is truthy, one entry per baking id, numbered from 0; otherwise \<^verbatim>\<open>JobDependency0\<close>
  with the render job's \<^verbatim>\<open>_id\<close> if that is truthy, and no entry if it is not.
\<close>

theorem submitted_dependencies:
  assumes run: "submit_deadline_post_job P E job instances w = (res, w')"
    and posted: "RequestsPost u p a v \<in> set (new_calls w w')"
  shows "(truthy (dict_get (instance_data w) ''tileRendering'') \<longrightarrow>
           (\<exists>ids. py_iter (dict_get (instance_data w) ''assemblySubmissionJobs'') = Inr ids
              \<and> dependency_entries (JobInfo p) = numbered_dependencies ids))
       \<and> (\<not> truthy (dict_get (instance_data w) ''tileRendering'')
            \<and> truthy (dict_get (instance_data w) ''bakingSubmissionJobs'') \<longrightarrow>
           (\<exists>ids. py_iter (dict_get (instance_data w) ''bakingSubmissionJobs'') = Inr ids
              \<and> dependency_entries (JobInfo p) = numbered_dependencies ids))
       \<and> (\<not> truthy (dict_get (instance_data w) ''tileRendering'')
            \<and> \<not> truthy (dict_get (instance_data w) ''bakingSubmissionJobs'') \<longrightarrow>
           (\<exists>job_id. py_get job ''_id'' PNone = Inr job_id
              \<and> dependency_entries (JobInfo p)
                  = (if truthy job_id then [(''JobDependency0'', job_id)] else [])))"
proof -
  from posted_job_info [OF run posted]
  obtain job_name priority initial_status output_dir info0 info1 environment
    where initial: "initial_job_info P E (instance_data w) job job_name priority
        initial_status output_dir = Inr info0"
      and added: "add_dependencies (instance_data w) job info0 = Inr info1"
      and final: "JobInfo p
        = AList.delete ''SecondaryPool'' (add_environment E environment info1)"
    by blast
  have "dependency_entries (JobInfo p) = dependency_entries info1"
    unfolding final
    by (simp add: dependency_entries_delete_other dependency_entries_add_environment)
  with add_dependencies_entries [OF added initial_job_info_no_dependencies [OF initial]]
  show ?thesis by simp
qed

theorem submitted_dependencies_witness:
  "RequestsPost ''http://farm:8082/api/jobs'' example_payload PNone (PBool True)
     \<in> set (new_calls example_submit_world
         (snd (submit_deadline_post_job default_plugin example_ext example_job
            [PDict example_skeleton] example_submit_world)))
   \<and> dependency_entries (JobInfo example_payload) = [(''JobDependency0'', PStr ''abc123'')]"
proof -
  let ?run = "submit_deadline_post_job default_plugin example_ext example_job
    [PDict example_skeleton] example_submit_world"
  have run: "?run = (fst ?run, snd ?run)" by simp
  have posted: "RequestsPost ''http://farm:8082/api/jobs'' example_payload PNone (PBool True)
      \<in> set (new_calls example_submit_world (snd ?run))"
    by code_simp
  have flags: "\<not> truthy (dict_get (instance_data example_submit_world) ''tileRendering'')"
    "\<not> truthy (dict_get (instance_data example_submit_world) ''bakingSubmissionJobs'')"
    by code_simp+
  have job_id: "py_get example_job ''_id'' PNone = Inr (PStr ''abc123'')"
    by code_simp
  from submitted_dependencies [OF run posted] flags job_id
  have "dependency_entries (JobInfo example_payload) = [(''JobDependency0'', PStr ''abc123'')]"
    by auto
  with posted show ?thesis by simp
qed

section \<open>The secondary pool\<close>

text \<open>
  Claim C8. The job description is first built with a \<^verbatim>\<open>SecondaryPool\<close> entry, the
  plug-in's \<^verbatim>\<open>deadline_pool_secondary\<close> when that is truthy and the instance's
  \<^verbatim>\<open>secondaryPool\<close> otherwise; the entry is removed before the post, so no payload that
  is posted has a \<^verbatim>\<open>SecondaryPool\<close> key in its \<^verbatim>\<open>JobInfo\<close>.
\<close>

theorem secondary_pool_removed:
  assumes run: "submit_deadline_post_job P E job instances w = (res, w')"
    and posted: "RequestsPost u p a v \<in> set (new_calls w w')"
  shows "map_of (JobInfo p) ''SecondaryPool'' = None
       \<and> (\<exists>job_name priority initial_status output_dir info0 info1 environment.
            initial_job_info P E (instance_data w) job job_name priority initial_status
              output_dir = Inr info0
          \<and> map_of info0 ''SecondaryPool''
              = Some (py_or (deadline_pool_secondary P)
                        (dict_get (instance_data w) ''secondaryPool''))
          \<and> add_dependencies (instance_data w) job info0 = Inr info1
          \<and> JobInfo p = AList.delete ''SecondaryPool'' (add_environment E environment info1))"
proof -
  from posted_job_info [OF run posted]
  obtain job_name priority initial_status output_dir info0 info1 environment
    where initial: "initial_job_info P E (instance_data w) job job_name priority
        initial_status output_dir = Inr info0"
      and added: "add_dependencies (instance_data w) job info0 = Inr info1"
      and final: "JobInfo p
        = AList.delete ''SecondaryPool'' (add_environment E environment info1)"
    by blast
  have gone: "map_of (JobInfo p) ''SecondaryPool'' = None"
    unfolding final by (simp add: AList.delete_conv)
  from initial_job_info_secondary_pool [OF initial] initial added final gone
  show ?thesis by blast
qed

theorem secondary_pool_removed_witness:
  "RequestsPost ''http://farm:8082/api/jobs'' example_payload PNone (PBool True)
     \<in> set (new_calls (example_submit_world\<lparr>instance_data :=
                  (''secondaryPool'', PStr ''pool-b'') # instance_data example_submit_world\<rparr>)
         (snd (submit_deadline_post_job (default_plugin\<lparr>deadline_pool_secondary := PStr ''pool-a''\<rparr>)
            example_ext example_job [PDict example_skeleton]
            (example_submit_world\<lparr>instance_data :=
                  (''secondaryPool'', PStr ''pool-b'') # instance_data example_submit_world\<rparr>))))
   \<and> map_of (JobInfo example_payload) ''SecondaryPool'' = None"
proof -
  let ?w = "example_submit_world\<lparr>instance_data :=
    (''secondaryPool'', PStr ''pool-b'') # instance_data example_submit_world\<rparr>"
  let ?run = "submit_deadline_post_job (default_plugin\<lparr>deadline_pool_secondary := PStr ''pool-a''\<rparr>)
    example_ext example_job [PDict example_skeleton] ?w"
  have run: "?run = (fst ?run, snd ?run)" by simp
  have posted: "RequestsPost ''http://farm:8082/api/jobs'' example_payload PNone (PBool True)
      \<in> set (new_calls ?w (snd ?run))"
    by code_simp
  from secondary_pool_removed [OF run posted] posted show ?thesis by blast
qed

section \<open>A run of \<^verbatim>\<open>process\<close>, step by step\<close>

lemma process_farm:
  "truthy (dict_get (instance_data w) ''farm'') \<Longrightarrow>
     process P E w =
       bindM (prepare_instances E (instance_data w)) (\<lambda>prepared.
       bindM (take_render_job E) (\<lambda>render_job.
       bindM set_deadline_url (\<lambda>_.
       bindM (submit_deadline_post_job P E render_job (snd (snd prepared)))
         (\<lambda>deadline_publish_job_id.
       write_publish_job E (fst prepared) (fst (snd prepared)) render_job (snd (snd prepared))
         deadline_publish_job_id)))) w"
  by (simp add: process_def bindM_def get_data_def)

lemma take_render_job_world:
  "take_render_job E w = (r, w') \<Longrightarrow>
     w' = w\<lparr>instance_data := AList.delete ''deadlineSubmissionJob'' (instance_data w)\<rparr>"
  by (auto simp: take_render_job_def Let_def split: if_splits)

lemma set_deadline_url_world:
  "set_deadline_url w = (r, w') \<Longrightarrow>
     files w' = files w \<and> calls w' = calls w \<and> instance_data w' = instance_data w"
  by (auto simp: set_deadline_url_def split: sum.splits if_splits)

lemma submit_world:
  assumes "submit_deadline_post_job P E job instances w = (r, w')"
  shows "files w' = files w \<and> instance_data w' = instance_data w
       \<and> (\<exists>ds. calls w' = calls w @ ds)"
proof -
  obtain rb w1 where built: "build_request P E job instances w = (rb, w1)"
    by (cases "build_request P E job instances w")
  from quietD [OF quiet_build_request built]
  obtain cs where w1: "instance_data w1 = instance_data w" "files w1 = files w"
    "calls w1 = calls w @ cs"
    by blast
  show ?thesis
  proof (cases rb)
    case (Inl e)
    with assms built have "w' = w1" by (simp add: submit_deadline_post_job_def bindM_def)
    with w1 show ?thesis by simp
  next
    case (Inr req)
    with assms built have "post_request E req w1 = (r, w')"
      by (simp add: submit_deadline_post_job_def bindM_def)
    then have "w' = w1\<lparr>calls := calls w1
        @ [RequestsPost (req_url req) (req_payload req) (req_auth req) (req_verify req)]\<rparr>"
      by (simp add: post_request_result)
    with w1 show ?thesis by simp
  qed
qed

lemma write_metadata_calls: "calls (snd (write_metadata E path pj w)) = calls w"
  by (simp add: write_metadata_def split: option.splits)

lemma write_publish_job_calls:
  assumes "write_publish_job E anatomy skeleton render_job instances job_id w = (r, w')"
  shows "\<exists>es. calls w' = calls w @ es \<and> filter is_post es = []"
proof -
  have "calls (snd (write_publish_job E anatomy skeleton render_job instances job_id w))
      = calls w
    \<or> calls (snd (write_publish_job E anatomy skeleton render_job instances job_id w))
      = calls w @ [CreateMetadataPath]"
    by (simp add: write_publish_job_def bindM_lift bindM_get_data bindM_extcall
        write_metadata_calls split: sum.splits)
  with assms show ?thesis by auto
qed

lemma process_posted:
  assumes run: "process P E w = (res, w')"
    and posted: "RequestsPost u p a v \<in> set (new_calls w w')"
  shows "\<exists>prepared render_job w3 sres w4.
      submit_deadline_post_job P E render_job (snd (snd prepared)) w3 = (sres, w4)
    \<and> RequestsPost u p a v \<in> set (new_calls w3 w4)
    \<and> files w4 = files w
    \<and> (case sres of
         Inl e \<Rightarrow> res = Inl e \<and> w' = w4
       | Inr job_id \<Rightarrow>
           write_publish_job E (fst prepared) (fst (snd prepared)) render_job
             (snd (snd prepared)) job_id w4 = (res, w'))"
proof -
  have farm: "truthy (dict_get (instance_data w) ''farm'')"
  proof (rule ccontr)
    assume "\<not> truthy (dict_get (instance_data w) ''farm'')"
    with run have "w' = w" by (simp add: process_def bindM_def get_data_def ret_def)
    with posted show False by (simp add: new_calls_def)
  qed
  note chain = run [unfolded process_farm [OF farm]]
  from bindM_cases [OF chain] show ?thesis
  proof (elim disjE exE conjE)
    fix e assume "prepare_instances E (instance_data w) w = (Inl e, w')"
    from quietD(4) [OF quiet_prepare_instances this]
    obtain cs where "calls w' = calls w @ cs" "filter is_post cs = []" by blast
    with posted not_posted show ?thesis by (simp add: new_calls_append)
  next
    fix prepared w1
    assume prep: "prepare_instances E (instance_data w) w = (Inr prepared, w1)"
      and rest1: "bindM (take_render_job E) (\<lambda>render_job.
        bindM set_deadline_url (\<lambda>_.
        bindM (submit_deadline_post_job P E render_job (snd (snd prepared)))
          (\<lambda>deadline_publish_job_id.
        write_publish_job E (fst prepared) (fst (snd prepared)) render_job (snd (snd prepared))
          deadline_publish_job_id))) w1 = (res, w')"
    from quietD [OF quiet_prepare_instances prep]
    obtain cs where w1: "files w1 = files w" "calls w1 = calls w @ cs" "filter is_post cs = []"
      by blast
    from bindM_cases [OF rest1] show ?thesis
    proof (elim disjE exE conjE)
      fix e assume "take_render_job E w1 = (Inl e, w')"
      from take_render_job_world [OF this] w1 have "calls w' = calls w @ cs" by simp
      with posted not_posted [OF w1(3)] show ?thesis by (simp add: new_calls_append)
    next
      fix render_job w2
      assume took: "take_render_job E w1 = (Inr render_job, w2)"
        and rest2: "bindM set_deadline_url (\<lambda>_.
          bindM (submit_deadline_post_job P E render_job (snd (snd prepared)))
            (\<lambda>deadline_publish_job_id.
          write_publish_job E (fst prepared) (fst (snd prepared)) render_job
            (snd (snd prepared)) deadline_publish_job_id)) w2 = (res, w')"
      from take_render_job_world [OF took] w1
      have w2: "files w2 = files w" "calls w2 = calls w @ cs" by simp_all
      from bindM_cases [OF rest2] show ?thesis
      proof (elim disjE exE conjE)
        fix e assume "set_deadline_url w2 = (Inl e, w')"
        from set_deadline_url_world [OF this] w2 have "calls w' = calls w @ cs" by simp
        with posted not_posted [OF w1(3)] show ?thesis by (simp add: new_calls_append)
      next
        fix x w3
        assume url: "set_deadline_url w2 = (Inr x, w3)"
          and rest3: "bindM (submit_deadline_post_job P E render_job (snd (snd prepared)))
            (\<lambda>deadline_publish_job_id.
          write_publish_job E (fst prepared) (fst (snd prepared)) render_job
            (snd (snd prepared)) deadline_publish_job_id) w3 = (res, w')"
        from set_deadline_url_world [OF url] w2
        have w3: "files w3 = files w" "calls w3 = calls w @ cs" by simp_all
        from bindM_cases [OF rest3] show ?thesis
        proof (elim disjE exE conjE)
          fix e
          assume sub: "submit_deadline_post_job P E render_job (snd (snd prepared)) w3
              = (Inl e, w')"
            and res: "res = Inl e"
          from submit_world [OF sub] obtain ds
            where w': "files w' = files w3" "calls w' = calls w3 @ ds" by blast
          with w3 have "new_calls w w' = cs @ ds" "new_calls w3 w' = ds"
            by (simp_all add: new_calls_def)
          with posted not_posted [OF w1(3)]
          have "RequestsPost u p a v \<in> set (new_calls w3 w')" by simp
          with sub res w' w3 show ?thesis by force
        next
          fix job_id w4
          assume sub: "submit_deadline_post_job P E render_job (snd (snd prepared)) w3
              = (Inr job_id, w4)"
            and wrote: "write_publish_job E (fst prepared) (fst (snd prepared)) render_job
              (snd (snd prepared)) job_id w4 = (res, w')"
          from submit_world [OF sub] obtain ds
            where w4: "files w4 = files w3" "calls w4 = calls w3 @ ds" by blast
          from write_publish_job_calls [OF wrote] obtain es
            where es: "calls w' = calls w4 @ es" "filter is_post es = []" by blast
          with w3 w4 have "new_calls w w' = cs @ ds @ es" "new_calls w3 w4 = ds"
            by (simp_all add: new_calls_def)
          with posted not_posted [OF w1(3)] not_posted [OF es(2)]
          have "RequestsPost u p a v \<in> set (new_calls w3 w4)" by simp
          with sub wrote w4 w3 show ?thesis by force
        qed
      qed
    qed
  qed
qed

section \<open>A farm that refuses the job\<close>

text \<open>
  Claim C2. Whenever a run of \<^verbatim>\<open>process\<close> has posted the publish job and the farm's
  response to that post is not a success, the run ends with the exception
  \<^verbatim>\<open>Exception(response.text)\<close>, whose message is the body of the response, and the
  files on disk are what they were before the run: no metadata file is written.
\<close>

theorem failed_submission_writes_nothing:
  assumes run: "process P E w = (res, w')"
    and posted: "RequestsPost u p a v \<in> set (new_calls w w')"
    and response: "requests_post E u p a v = Inr r"
    and failed: "\<not> resp_ok r"
  shows "res = Inl (Exception (resp_text r)) \<and> files w' = files w"
proof -
  from process_posted [OF run posted]
  obtain prepared render_job w3 sres w4
    where sub: "submit_deadline_post_job P E render_job (snd (snd prepared)) w3 = (sres, w4)"
      and here: "RequestsPost u p a v \<in> set (new_calls w3 w4)"
      and files: "files w4 = files w"
      and after: "case sres of
           Inl e \<Rightarrow> res = Inl e \<and> w' = w4
         | Inr job_id \<Rightarrow>
             write_publish_job E (fst prepared) (fst (snd prepared)) render_job
               (snd (snd prepared)) job_id w4 = (res, w')"
    by blast
  from submit_posted [OF sub here] response failed
  have "sres = Inl (Exception (resp_text r))" by auto
  with after files show ?thesis by simp
qed

theorem failed_submission_writes_nothing_witness:
  "fst (process default_plugin failing_farm_ext (example_world example_data))
     = Inl (Exception ''internal error'')
   \<and> files (snd (process default_plugin failing_farm_ext (example_world example_data)))
     = Map.empty"
proof -
  let ?run = "process default_plugin failing_farm_ext (example_world example_data)"
  have run: "?run = (fst ?run, snd ?run)" by simp
  have posted: "RequestsPost ''http://farm:8082/api/jobs'' example_payload PNone (PBool True)
      \<in> set (new_calls (example_world example_data) (snd ?run))"
    by code_simp
  have response: "requests_post failing_farm_ext ''http://farm:8082/api/jobs'' example_payload
      PNone (PBool True) = Inr failed_response"
    by (simp add: failing_farm_ext_def)
  have failed: "\<not> resp_ok failed_response"
    by (simp add: failed_response_def)
  from failed_submission_writes_nothing [OF run posted response failed]
  show ?thesis by (simp add: failed_response_def example_world_def)
qed

section \<open>The metadata file\<close>

lemma publish_job_description_keys:
  "publish_job_description E skeleton render_job instances = Inr publish_job \<Longrightarrow>
     map fst publish_job
       = [''folderPath'', ''frameStart'', ''frameEnd'', ''fps'', ''source'', ''user'',
          ''version'', ''intent'', ''comment'', ''job'', ''instances'']"
  by (auto simp: publish_job_description_def bindE_def split: sum.splits)

lemma map_of_add_job_id:
  "map_of (add_job_id job_id publish_job) k
     = (if k = ''deadline_publish_job_id'' \<and> truthy job_id then Some job_id
        else map_of publish_job k)"
  by (simp add: add_job_id_def AList.update_conv')

lemma map_of_add_audio:
  "add_audio E publish_job = Inr publish_job' \<Longrightarrow>
     map_of publish_job' k
       = (if k = ''audio'' \<and> truthy (dict_get (context_data E) ''audioFile'')
             \<and> os_path_isfile E (dict_get (context_data E) ''audioFile'') = Inr True
          then Some (dict_get (context_data E) ''audioFile'')
          else map_of publish_job k)"
  by (auto simp: add_audio_def Let_def bindE_def AList.update_conv'
      split: sum.splits if_splits)

lemma write_metadata_written:
  "write_metadata E path publish_job w = (Inr x, w') \<Longrightarrow>
     w' = w\<lparr>files := (files w)(path \<mapsto> Json publish_job)\<rparr>"
  by (auto simp: write_metadata_def split: option.splits if_splits)

lemma write_publish_job_written:
  assumes "write_publish_job E anatomy skeleton render_job instances job_id w = (Inr x, w')"
  shows "\<exists>path publish_job publish_job0.
      files w' = (files w)(path \<mapsto> Json publish_job)
    \<and> map fst publish_job0
        = [''folderPath'', ''frameStart'', ''frameEnd'', ''fps'', ''source'', ''user'',
           ''version'', ''intent'', ''comment'', ''job'', ''instances'']
    \<and> add_audio E (add_job_id job_id publish_job0) = Inr publish_job"
proof -
  from assms have "\<exists>instances' publish_job0 publish_job paths.
      publish_job_description E skeleton render_job instances' = Inr publish_job0
    \<and> add_audio E (add_job_id job_id publish_job0) = Inr publish_job
    \<and> write_metadata E (fst paths) publish_job (w\<lparr>calls := calls w @ [CreateMetadataPath]\<rparr>)
        = (Inr x, w')"
    by (auto simp: write_publish_job_def bindM_lift bindM_get_data bindM_extcall
        split: sum.splits)
  then obtain instances' publish_job0 publish_job paths
    where d: "publish_job_description E skeleton render_job instances' = Inr publish_job0"
      and a: "add_audio E (add_job_id job_id publish_job0) = Inr publish_job"
      and wr: "write_metadata E (fst paths) publish_job
        (w\<lparr>calls := calls w @ [CreateMetadataPath]\<rparr>) = (Inr x, w')"
    by blast
  from write_metadata_written [OF wr]
  have "files w' = (files w)(fst paths \<mapsto> Json publish_job)" by simp
  with publish_job_description_keys [OF d] a show ?thesis
    by (intro exI [of _ "fst paths"] exI [of _ publish_job] exI [of _ publish_job0]) simp
qed

lemma submit_succeeded:
  assumes run: "submit_deadline_post_job P E job instances w = (Inr job_id, w')"
  shows "\<exists>u p a v r body. RequestsPost u p a v \<in> set (new_calls w w')
      \<and> requests_post E u p a v = Inr r \<and> resp_ok r \<and> resp_json r = Inr body
      \<and> py_getitem body ''_id'' = Inr job_id"
proof -
  obtain rb w1 where built: "build_request P E job instances w = (rb, w1)"
    by (cases "build_request P E job instances w")
  from quietD(4) [OF quiet_build_request built]
  obtain cs where w1: "calls w1 = calls w @ cs" by blast
  show ?thesis
  proof (cases rb)
    case (Inl e)
    with run built show ?thesis by (simp add: submit_deadline_post_job_def bindM_def)
  next
    case (Inr req)
    let ?c = "RequestsPost (req_url req) (req_payload req) (req_auth req) (req_verify req)"
    from run built Inr have post: "post_request E req w1 = (Inr job_id, w')"
      by (simp add: submit_deadline_post_job_def bindM_def)
    then have "w' = w1\<lparr>calls := calls w1 @ [?c]\<rparr>" by (simp add: post_request_result)
    with w1 have here: "?c \<in> set (new_calls w w')" by (simp add: new_calls_def)
    from post obtain r where r: "requests_post E (req_url req) (req_payload req) (req_auth req)
        (req_verify req) = Inr r" "resp_ok r"
      "bindE (resp_json r) (\<lambda>body. py_getitem body ''_id'') = Inr job_id"
      by (auto simp: post_request_result split: sum.splits if_splits)
    from bindE_Inr [OF r(3)] obtain body
      where "resp_json r = Inr body" "py_getitem body ''_id'' = Inr job_id" by blast
    with here r show ?thesis by blast
  qed
qed

lemma process_succeeded:
  assumes run: "process P E w = (Inr x, w')"
    and farm: "truthy (dict_get (instance_data w) ''farm'')"
  shows "\<exists>prepared render_job w3 job_id w4 cs.
      submit_deadline_post_job P E render_job (snd (snd prepared)) w3 = (Inr job_id, w4)
    \<and> calls w3 = calls w @ cs \<and> files w4 = files w
    \<and> write_publish_job E (fst prepared) (fst (snd prepared)) render_job
         (snd (snd prepared)) job_id w4 = (Inr x, w')"
proof -
  note chain = run [unfolded process_farm [OF farm]]
  from bindM_cases [OF chain] obtain prepared w1
    where prep: "prepare_instances E (instance_data w) w = (Inr prepared, w1)"
      and rest1: "bindM (take_render_job E) (\<lambda>render_job.
        bindM set_deadline_url (\<lambda>_.
        bindM (submit_deadline_post_job P E render_job (snd (snd prepared)))
          (\<lambda>deadline_publish_job_id.
        write_publish_job E (fst prepared) (fst (snd prepared)) render_job (snd (snd prepared))
          deadline_publish_job_id))) w1 = (Inr x, w')"
    by auto
  from quietD [OF quiet_prepare_instances prep]
  obtain cs where w1: "files w1 = files w" "calls w1 = calls w @ cs" by blast
  from bindM_cases [OF rest1] obtain render_job w2
    where took: "take_render_job E w1 = (Inr render_job, w2)"
      and rest2: "bindM set_deadline_url (\<lambda>_.
          bindM (submit_deadline_post_job P E render_job (snd (snd prepared)))
            (\<lambda>deadline_publish_job_id.
          write_publish_job E (fst prepared) (fst (snd prepared)) render_job
            (snd (snd prepared)) deadline_publish_job_id)) w2 = (Inr x, w')"
    by auto
  from take_render_job_world [OF took] w1
  have w2: "files w2 = files w" "calls w2 = calls w @ cs" by simp_all
  from bindM_cases [OF rest2] obtain y w3
    where url: "set_deadline_url w2 = (Inr y, w3)"
      and rest3: "bindM (submit_deadline_post_job P E render_job (snd (snd prepared)))
            (\<lambda>deadline_publish_job_id.
          write_publish_job E (fst prepared) (fst (snd prepared)) render_job
            (snd (snd prepared)) deadline_publish_job_id) w3 = (Inr x, w')"
    by auto
  from set_deadline_url_world [OF url] w2
  have w3: "files w3 = files w" "calls w3 = calls w @ cs" by simp_all
  from bindM_cases [OF rest3] obtain job_id w4
    where sub: "submit_deadline_post_job P E render_job (snd (snd prepared)) w3
        = (Inr job_id, w4)"
      and wrote: "write_publish_job E (fst prepared) (fst (snd prepared)) render_job
        (snd (snd prepared)) job_id w4 = (Inr x, w')"
    by auto
  from submit_world [OF sub] w3 have "files w4 = files w" by simp
  with sub wrote w3 show ?thesis by blast
qed

text \<open>
  Claim C9. Every run of \<^verbatim>\<open>process\<close> on a farm instance that ends normally has posted
  the publish job, got a job id from the farm's response, and written exactly one file,
  the publish-job description as JSON. In it the key \<^verbatim>\<open>deadline_publish_job_id\<close> is
  present, with the id, exactly when the id returned is truthy; the key \<^verbatim>\<open>audio\<close> is
  present, with the path, exactly when the context names an audio file and
  \<^verbatim>\<open>os.path.isfile\<close> holds of it; the keys folderPath, frameStart, frameEnd, fps,
  source, user, version, intent, comment, job and instances are always present.
\<close>

theorem metadata_optional_keys:
  assumes run: "process P E w = (Inr x, w')"
    and farm: "truthy (dict_get (instance_data w) ''farm'')"
  shows "\<exists>u p a v r body job_id path publish_job.
      RequestsPost u p a v \<in> set (new_calls w w') \<and> requests_post E u p a v = Inr r
    \<and> resp_json r = Inr body \<and> py_getitem body ''_id'' = Inr job_id
    \<and> files w' = (files w)(path \<mapsto> Json publish_job)
    \<and> map_of publish_job ''deadline_publish_job_id''
        = (if truthy job_id then Some job_id else None)
    \<and> map_of publish_job ''audio''
        = (if truthy (dict_get (context_data E) ''audioFile'')
              \<and> os_path_isfile E (dict_get (context_data E) ''audioFile'') = Inr True
           then Some (dict_get (context_data E) ''audioFile'') else None)
    \<and> list_all (\<lambda>k. map_of publish_job k \<noteq> None)
        [''folderPath'', ''frameStart'', ''frameEnd'', ''fps'', ''source'', ''user'',
         ''version'', ''intent'', ''comment'', ''job'', ''instances'']"
proof -
  from process_succeeded [OF run farm]
  obtain prepared render_job w3 job_id w4 cs
    where sub: "submit_deadline_post_job P E render_job (snd (snd prepared)) w3
        = (Inr job_id, w4)"
      and w3: "calls w3 = calls w @ cs" and w4: "files w4 = files w"
      and wrote: "write_publish_job E (fst prepared) (fst (snd prepared)) render_job
        (snd (snd prepared)) job_id w4 = (Inr x, w')"
    by blast
  from submit_succeeded [OF sub] obtain u p a v r body
    where here: "RequestsPost u p a v \<in> set (new_calls w3 w4)"
      and resp: "requests_post E u p a v = Inr r" "resp_json r = Inr body"
        "py_getitem body ''_id'' = Inr job_id"
    by blast
  from submit_world [OF sub] obtain ds where ds: "calls w4 = calls w3 @ ds" by blast
  from write_publish_job_calls [OF wrote] obtain es where es: "calls w' = calls w4 @ es"
    by blast
  from w3 ds es have "new_calls w w' = cs @ ds @ es" "new_calls w3 w4 = ds"
    by (simp_all add: new_calls_def)
  with here have posted: "RequestsPost u p a v \<in> set (new_calls w w')" by simp
  from write_publish_job_written [OF wrote]
  obtain path publish_job publish_job0
    where written4: "files w' = (files w4)(path \<mapsto> Json publish_job)"
      and keys: "map fst publish_job0
        = [''folderPath'', ''frameStart'', ''frameEnd'', ''fps'', ''source'', ''user'',
           ''version'', ''intent'', ''comment'', ''job'', ''instances'']"
      and audio: "add_audio E (add_job_id job_id publish_job0) = Inr publish_job"
    by (elim exE conjE) (rule that)
  from written4 w4 have written: "files w' = (files w)(path \<mapsto> Json publish_job)"
    by simp
  have base: "(map_of publish_job0 k = None)
      = (k \<notin> set [''folderPath'', ''frameStart'', ''frameEnd'', ''fps'', ''source'', ''user'',
           ''version'', ''intent'', ''comment'', ''job'', ''instances''])" for k
    unfolding keys [symmetric] by (simp add: map_of_eq_None_iff)
  have id: "map_of publish_job ''deadline_publish_job_id''
      = (if truthy job_id then Some job_id else None)"
    using base [of "''deadline_publish_job_id''"]
    by (simp add: map_of_add_audio [OF audio] map_of_add_job_id)
  have au: "map_of publish_job ''audio''
      = (if truthy (dict_get (context_data E) ''audioFile'')
            \<and> os_path_isfile E (dict_get (context_data E) ''audioFile'') = Inr True
         then Some (dict_get (context_data E) ''audioFile'') else None)"
    using base [of "''audio''"]
    by (simp add: map_of_add_audio [OF audio] map_of_add_job_id)
  have always: "list_all (\<lambda>k. map_of publish_job k \<noteq> None)
      [''folderPath'', ''frameStart'', ''frameEnd'', ''fps'', ''source'', ''user'',
       ''version'', ''intent'', ''comment'', ''job'', ''instances'']"
    using base [of "''folderPath''"] base [of "''frameStart''"] base [of "''frameEnd''"]
      base [of "''fps''"] base [of "''source''"] base [of "''user''"] base [of "''version''"]
      base [of "''intent''"] base [of "''comment''"] base [of "''job''"]
      base [of "''instances''"]
    by (simp add: map_of_add_audio [OF audio] map_of_add_job_id)
  from posted resp written id au always show ?thesis
    by (intro exI [of _ u] exI [of _ p] exI [of _ a] exI [of _ v] exI [of _ r]
        exI [of _ body] exI [of _ job_id] exI [of _ path] exI [of _ publish_job]) simp
qed

theorem metadata_optional_keys_witness:
  "\<exists>path publish_job.
      files (snd (process default_plugin audio_ext (example_world example_data)))
        = Map.empty(path \<mapsto> Json publish_job)
    \<and> map_of publish_job ''deadline_publish_job_id'' = Some (PStr ''pub456'')
    \<and> map_of publish_job ''audio'' = Some (PStr ''/work/sh010.wav'')
    \<and> map_of publish_job ''instances'' \<noteq> None"
proof -
  let ?run = "process default_plugin audio_ext (example_world example_data)"
  have "fst ?run = Inr ()" by code_simp
  then have run: "?run = (Inr (), snd ?run)" by (metis prod.collapse)
  have farm: "truthy (dict_get (instance_data (example_world example_data)) ''farm'')"
    by code_simp
  have audio: "dict_get (context_data audio_ext) ''audioFile'' = PStr ''/work/sh010.wav''"
    "os_path_isfile audio_ext (PStr ''/work/sh010.wav'') = Inr True"
    by code_simp+
  from metadata_optional_keys [OF run farm]
  obtain u p a v r body job_id path publish_job
    where resp: "requests_post audio_ext u p a v = Inr r" "resp_json r = Inr body"
        "py_getitem body ''_id'' = Inr job_id"
      and written: "files (snd ?run)
        = (files (example_world example_data))(path \<mapsto> Json publish_job)"
      and id: "map_of publish_job ''deadline_publish_job_id''
        = (if truthy job_id then Some job_id else None)"
      and au: "map_of publish_job ''audio''
        = (if truthy (dict_get (context_data audio_ext) ''audioFile'')
              \<and> os_path_isfile audio_ext (dict_get (context_data audio_ext) ''audioFile'')
                  = Inr True
           then Some (dict_get (context_data audio_ext) ''audioFile'') else None)"
      and always: "list_all (\<lambda>k. map_of publish_job k \<noteq> None)
        [''folderPath'', ''frameStart'', ''frameEnd'', ''fps'', ''source'', ''user'',
         ''version'', ''intent'', ''comment'', ''job'', ''instances'']"
    by (elim exE conjE) (rule that)
  from resp(1) have "r = example_response"
    by (simp add: audio_ext_def example_ext_def)
  with resp have "job_id = PStr ''pub456''"
    by (auto simp: example_response_def dict_getitem_def)
  with id have id': "map_of publish_job ''deadline_publish_job_id'' = Some (PStr ''pub456'')"
    by simp
  from au audio have au': "map_of publish_job ''audio'' = Some (PStr ''/work/sh010.wav'')"
    by simp
  from written have written': "files (snd ?run) = Map.empty(path \<mapsto> Json publish_job)"
    by (simp add: example_world_def)
  from always have "map_of publish_job ''instances'' \<noteq> None" by simp
  with written' id' au' show ?thesis
    by (intro exI [of _ path] exI [of _ publish_job]) simp
qed

section \<open>An instance without a render job\<close>

lemma dict_get_delete_other:
  "k \<noteq> k' \<Longrightarrow> dict_get (AList.delete k' d) k = dict_get d k"
  by (simp add: dict_get_def dict_get_default_def AList.delete_conv)

text \<open>
  Claim C3 as stated fails on an instance that has neither a farm submission nor any
  tile-rendering data, in a context that names a farm user: the run does not stop, and
  the render job made up carries the context's \<^verbatim>\<open>deadlineUser\<close>, not the OS user.
\<close>

theorem missing_render_job_counterexample:
  "fst (process default_plugin deadline_user_ext (example_world example_data_without_job))
     = Inr ()
   \<and> map (\<lambda>p. map_of (JobInfo p) ''UserName'')
       (posted_payloads (calls (snd (process default_plugin deadline_user_ext
          (example_world example_data_without_job)))))
     = [Some (PStr ''render-svc'')]
   \<and> dict_get example_data_without_job ''deadlineSubmissionJob'' = PNone
   \<and> dict_get example_data_without_job ''tileRendering'' = PNone
   \<and> getuser deadline_user_ext = Inr ''alice''"
  by code_simp

text \<open>
  Claim C3, amended. For a farm instance whose instances could be prepared and whose data
  has no truthy \<^verbatim>\<open>deadlineSubmissionJob\<close>: if \<^verbatim>\<open>tileRendering\<close> is exactly \<^verbatim>\<open>False\<close>,
  \<^verbatim>\<open>process\<close> stops with the assertion error "Cannot continue without valid Deadline
  submission."; in every other case (the flag true, absent or anything else) a render job
  is made up. When no assembly jobs are known and the context's \<^verbatim>\<open>currentFile\<close> is
  not a string, that fails with a \<^verbatim>\<open>TypeError\<close>; when \<^verbatim>\<open>getpass.getuser\<close> raises,
  it fails with that error; in both cases the run stops there. Otherwise processing goes
  on with the record made up: its batch name is the instance's \<^verbatim>\<open>jobBatchName\<close> when
  assembly jobs are known and the current file's name without directory and extension
  otherwise, its user is the context's \<^verbatim>\<open>deadlineUser\<close> when the context has one and
  the OS user otherwise, and its environment holds the three FTRACK variables of the
  process environment.
\<close>

theorem missing_render_job:
  assumes farm: "truthy (dict_get (instance_data w) ''farm'')"
    and prep: "prepare_instances E (instance_data w) w = (Inr prepared, w1)"
    and absent: "\<not> truthy (dict_get (instance_data w) ''deadlineSubmissionJob'')"
  shows
    "(dict_get (instance_data w) ''tileRendering'' = PBool False \<longrightarrow>
        process P E w
        = (Inl (AssertionError ''Cannot continue without valid Deadline submission.''),
           w1\<lparr>instance_data := AList.delete ''deadlineSubmissionJob'' (instance_data w)\<rparr>))
     \<and> (dict_get (instance_data w) ''tileRendering'' \<noteq> PBool False \<longrightarrow>
        \<not> truthy (dict_get (instance_data w) ''assemblySubmissionJobs'') \<longrightarrow>
        \<not> is_str (dict_get (context_data E) ''currentFile'') \<longrightarrow>
        process P E w
        = (Inl TypeError,
           w1\<lparr>instance_data := AList.delete ''deadlineSubmissionJob'' (instance_data w)\<rparr>))
     \<and> (dict_get (instance_data w) ''tileRendering'' \<noteq> PBool False \<longrightarrow>
        (truthy (dict_get (instance_data w) ''assemblySubmissionJobs'')
           \<or> is_str (dict_get (context_data E) ''currentFile'')) \<longrightarrow>
        getuser E = Inl e \<longrightarrow>
        process P E w
        = (Inl e,
           w1\<lparr>instance_data := AList.delete ''deadlineSubmissionJob'' (instance_data w)\<rparr>))
     \<and> (dict_get (instance_data w) ''tileRendering'' \<noteq> PBool False \<longrightarrow>
        getuser E = Inr os_user \<longrightarrow>
        (truthy (dict_get (instance_data w) ''assemblySubmissionJobs'')
           \<or> dict_get (context_data E) ''currentFile'' = PStr current_file) \<longrightarrow>
        (let render_job = PDict [(''Props'', PDict
               [(''Batch'',
                   if truthy (dict_get (instance_data w) ''assemblySubmissionJobs'')
                   then dict_get (instance_data w) ''jobBatchName''
                   else PStr (fst (os_path_splitext E (os_path_basename E current_file)))),
                (''User'', dict_get_default (context_data E) ''deadlineUser'' (PStr os_user)),
                (''Env'', PDict
                   [(''FTRACK_API_USER'', environ_get E ''FTRACK_API_USER''),
                    (''FTRACK_API_KEY'', environ_get E ''FTRACK_API_KEY''),
                    (''FTRACK_SERVER'', environ_get E ''FTRACK_SERVER'')])])];
             w2 = w1\<lparr>instance_data := AList.delete ''deadlineSubmissionJob'' (instance_data w)\<rparr>
         in take_render_job E w1 = (Inr render_job, w2)
          \<and> process P E w
            = bindM set_deadline_url (\<lambda>_.
              bindM (submit_deadline_post_job P E render_job (snd (snd prepared)))
                (\<lambda>deadline_publish_job_id.
              write_publish_job E (fst prepared) (fst (snd prepared)) render_job
                (snd (snd prepared)) deadline_publish_job_id)) w2))"
proof -
  from quietD(1) [OF quiet_prepare_instances prep]
  have data: "instance_data w1 = instance_data w" .
  have chain: "process P E w =
      bindM (take_render_job E) (\<lambda>render_job.
      bindM set_deadline_url (\<lambda>_.
      bindM (submit_deadline_post_job P E render_job (snd (snd prepared)))
        (\<lambda>deadline_publish_job_id.
      write_publish_job E (fst prepared) (fst (snd prepared)) render_job (snd (snd prepared))
        deadline_publish_job_id))) w1"
    unfolding process_farm [OF farm] by (simp add: bindM_def prep)
  have abort: "dict_get (instance_data w) ''tileRendering'' = PBool False \<longrightarrow>
      process P E w
      = (Inl (AssertionError ''Cannot continue without valid Deadline submission.''),
         w1\<lparr>instance_data := AList.delete ''deadlineSubmissionJob'' (instance_data w)\<rparr>)"
  proof
    assume "dict_get (instance_data w) ''tileRendering'' = PBool False"
    with absent data have "take_render_job E w1
      = (Inl (AssertionError ''Cannot continue without valid Deadline submission.''),
         w1\<lparr>instance_data := AList.delete ''deadlineSubmissionJob'' (instance_data w)\<rparr>)"
      by (simp add: take_render_job_def Let_def dict_get_delete_other)
    then show "process P E w
      = (Inl (AssertionError ''Cannot continue without valid Deadline submission.''),
         w1\<lparr>instance_data := AList.delete ''deadlineSubmissionJob'' (instance_data w)\<rparr>)"
      unfolding chain by (simp add: bindM_def)
  qed
  have fabricate: "take_render_job E w1
        = (Inr (PDict [(''Props'', PDict
               [(''Batch'',
                   if truthy (dict_get (instance_data w) ''assemblySubmissionJobs'')
                   then dict_get (instance_data w) ''jobBatchName''
                   else PStr (fst (os_path_splitext E (os_path_basename E current_file)))),
                (''User'', dict_get_default (context_data E) ''deadlineUser'' (PStr os_user)),
                (''Env'', PDict
                   [(''FTRACK_API_USER'', environ_get E ''FTRACK_API_USER''),
                    (''FTRACK_API_KEY'', environ_get E ''FTRACK_API_KEY''),
                    (''FTRACK_SERVER'', environ_get E ''FTRACK_SERVER'')])])]),
           w1\<lparr>instance_data := AList.delete ''deadlineSubmissionJob'' (instance_data w)\<rparr>)"
    if "dict_get (instance_data w) ''tileRendering'' \<noteq> PBool False"
      and "getuser E = Inr os_user"
      and "truthy (dict_get (instance_data w) ''assemblySubmissionJobs'')
           \<or> dict_get (context_data E) ''currentFile'' = PStr current_file"
    using that absent data
    by (auto simp: take_render_job_def Let_def dict_get_delete_other fake_render_job_def
        bindE_def)
  have unreadable: "dict_get (instance_data w) ''tileRendering'' \<noteq> PBool False \<longrightarrow>
      \<not> truthy (dict_get (instance_data w) ''assemblySubmissionJobs'') \<longrightarrow>
      \<not> is_str (dict_get (context_data E) ''currentFile'') \<longrightarrow>
      process P E w
      = (Inl TypeError,
         w1\<lparr>instance_data := AList.delete ''deadlineSubmissionJob'' (instance_data w)\<rparr>)"
  proof (intro impI)
    assume "dict_get (instance_data w) ''tileRendering'' \<noteq> PBool False"
      and "\<not> truthy (dict_get (instance_data w) ''assemblySubmissionJobs'')"
      and "\<not> is_str (dict_get (context_data E) ''currentFile'')"
    with absent data have "take_render_job E w1
      = (Inl TypeError,
         w1\<lparr>instance_data := AList.delete ''deadlineSubmissionJob'' (instance_data w)\<rparr>)"
      by (auto simp: take_render_job_def Let_def dict_get_delete_other fake_render_job_def
          bindE_def split: pyval.splits)
    then show "process P E w
      = (Inl TypeError,
         w1\<lparr>instance_data := AList.delete ''deadlineSubmissionJob'' (instance_data w)\<rparr>)"
      unfolding chain by (simp add: bindM_def)
  qed
  have nameless: "dict_get (instance_data w) ''tileRendering'' \<noteq> PBool False \<longrightarrow>
      (truthy (dict_get (instance_data w) ''assemblySubmissionJobs'')
         \<or> is_str (dict_get (context_data E) ''currentFile'')) \<longrightarrow>
      getuser E = Inl e \<longrightarrow>
      process P E w
      = (Inl e,
         w1\<lparr>instance_data := AList.delete ''deadlineSubmissionJob'' (instance_data w)\<rparr>)"
  proof (intro impI)
    assume "dict_get (instance_data w) ''tileRendering'' \<noteq> PBool False"
      and "truthy (dict_get (instance_data w) ''assemblySubmissionJobs'')
         \<or> is_str (dict_get (context_data E) ''currentFile'')"
      and "getuser E = Inl e"
    with absent data have "take_render_job E w1
      = (Inl e,
         w1\<lparr>instance_data := AList.delete ''deadlineSubmissionJob'' (instance_data w)\<rparr>)"
      by (auto simp: take_render_job_def Let_def dict_get_delete_other fake_render_job_def
          bindE_def split: pyval.splits)
    then show "process P E w
      = (Inl e,
         w1\<lparr>instance_data := AList.delete ''deadlineSubmissionJob'' (instance_data w)\<rparr>)"
      unfolding chain by (simp add: bindM_def)
  qed
  have made: "dict_get (instance_data w) ''tileRendering'' \<noteq> PBool False \<longrightarrow>
      getuser E = Inr os_user \<longrightarrow>
      (truthy (dict_get (instance_data w) ''assemblySubmissionJobs'')
         \<or> dict_get (context_data E) ''currentFile'' = PStr current_file) \<longrightarrow>
      (let render_job = PDict [(''Props'', PDict
             [(''Batch'',
                 if truthy (dict_get (instance_data w) ''assemblySubmissionJobs'')
                 then dict_get (instance_data w) ''jobBatchName''
                 else PStr (fst (os_path_splitext E (os_path_basename E current_file)))),
              (''User'', dict_get_default (context_data E) ''deadlineUser'' (PStr os_user)),
              (''Env'', PDict
                 [(''FTRACK_API_USER'', environ_get E ''FTRACK_API_USER''),
                  (''FTRACK_API_KEY'', environ_get E ''FTRACK_API_KEY''),
                  (''FTRACK_SERVER'', environ_get E ''FTRACK_SERVER'')])])];
           w2 = w1\<lparr>instance_data := AList.delete ''deadlineSubmissionJob'' (instance_data w)\<rparr>
       in take_render_job E w1 = (Inr render_job, w2)
        \<and> process P E w
          = bindM set_deadline_url (\<lambda>_.
            bindM (submit_deadline_post_job P E render_job (snd (snd prepared)))
              (\<lambda>deadline_publish_job_id.
            write_publish_job E (fst prepared) (fst (snd prepared)) render_job
              (snd (snd prepared)) deadline_publish_job_id)) w2)"
    using fabricate unfolding chain Let_def
    by (auto simp: bindM_def)
  from abort unreadable nameless made show ?thesis by (intro conjI)
qed

theorem missing_render_job_witness:
  "fst (process default_plugin deadline_user_ext
          (example_world (example_data_without_job @ [(''tileRendering'', PBool False)])))
     = Inl (AssertionError ''Cannot continue without valid Deadline submission.'')
   \<and> fst (take_render_job deadline_user_ext
          (snd (prepare_instances deadline_user_ext example_data_without_job
                  (example_world example_data_without_job))))
     = Inr (PDict [(''Props'', PDict
              [(''Batch'', PStr ''sh010_v003''),
               (''User'', PStr ''render-svc''),
               (''Env'', PDict [(''FTRACK_API_USER'', PNone), (''FTRACK_API_KEY'', PNone),
                               (''FTRACK_SERVER'', PNone)])])])"
proof -
  let ?tiled = "example_data_without_job @ [(''tileRendering'', PBool False)]"
  let ?prep1 = "prepare_instances deadline_user_ext ?tiled (example_world ?tiled)"
  let ?prep2 = "prepare_instances deadline_user_ext example_data_without_job
    (example_world example_data_without_job)"
  have "\<not> isl (fst ?prep1)" by code_simp
  then have prep1: "prepare_instances deadline_user_ext (instance_data (example_world ?tiled))
      (example_world ?tiled) = (Inr (projr (fst ?prep1)), snd ?prep1)"
    by (simp add: example_world_def prod_eq_iff)
  have "\<not> isl (fst ?prep2)" by code_simp
  then have prep2: "prepare_instances deadline_user_ext
      (instance_data (example_world example_data_without_job))
      (example_world example_data_without_job) = (Inr (projr (fst ?prep2)), snd ?prep2)"
    by (simp add: example_world_def prod_eq_iff)
  have farm1: "truthy (dict_get (instance_data (example_world ?tiled)) ''farm'')"
    and absent1: "\<not> truthy (dict_get (instance_data (example_world ?tiled))
      ''deadlineSubmissionJob'')"
    and tile1: "dict_get (instance_data (example_world ?tiled)) ''tileRendering'' = PBool False"
    by code_simp+
  have farm2: "truthy (dict_get (instance_data (example_world example_data_without_job))
      ''farm'')"
    and absent2: "\<not> truthy (dict_get (instance_data (example_world example_data_without_job))
      ''deadlineSubmissionJob'')"
    and tile2: "dict_get (instance_data (example_world example_data_without_job))
      ''tileRendering'' \<noteq> PBool False"
    and user2: "getuser deadline_user_ext = Inr ''alice''"
    and file2: "dict_get (context_data deadline_user_ext) ''currentFile''
      = PStr ''/work/sh010_v003.ma''"
    by code_simp+
  have known: "dict_get_default (context_data deadline_user_ext) ''deadlineUser'' (PStr ''alice'')
      = PStr ''render-svc''"
    "\<not> truthy (dict_get (instance_data (example_world example_data_without_job))
      ''assemblySubmissionJobs'')"
    "fst (os_path_splitext deadline_user_ext
       (os_path_basename deadline_user_ext ''/work/sh010_v003.ma'')) = ''sh010_v003''"
    "environ_get deadline_user_ext ''FTRACK_API_USER'' = PNone"
    "environ_get deadline_user_ext ''FTRACK_API_KEY'' = PNone"
    "environ_get deadline_user_ext ''FTRACK_SERVER'' = PNone"
    by code_simp+
  from missing_render_job [OF farm1 prep1 absent1, where P = default_plugin] tile1
  have stop: "fst (process default_plugin deadline_user_ext (example_world ?tiled))
      = Inl (AssertionError ''Cannot continue without valid Deadline submission.'')"
    by simp
  from missing_render_job [OF farm2 prep2 absent2, where P = default_plugin
      and os_user = "''alice''" and current_file = "''/work/sh010_v003.ma''"] tile2 user2 file2
  have "fst (take_render_job deadline_user_ext (snd ?prep2))
     = Inr (PDict [(''Props'', PDict
              [(''Batch'', PStr ''sh010_v003''),
               (''User'', PStr ''render-svc''),
               (''Env'', PDict [(''FTRACK_API_USER'', PNone), (''FTRACK_API_KEY'', PNone),
                               (''FTRACK_SERVER'', PNone)])])])"
    by (simp add: Let_def known)
  with stop show ?thesis by simp
qed
end
